theory Spec2Isabelle
  imports Complex_Main "HOL-Library.Multiset"
begin

section \<open>Values of the JavaScript runtime\<close>

text \<open>
  A \<open>Date\<close> is modelled by its time value, the number of milliseconds since the epoch,
  as an \<open>int\<close>. Arithmetic on time values is exact here; in the runtime it is exact
  as long as the numbers stay below \<open>2^53\<close>, which every difference of two real
  timestamps does. \<open>null\<close> and \<open>undefined\<close> of a nullable column are both \<open>None\<close>.
\<close>

type_synonym Date = int

subsection \<open>Numbers\<close>

text \<open>
  A number that carries an amount is a double: a finite value, one of the two
  infinities, or \<open>NaN\<close>. The two zeros are one value (no operation below tells them
  apart). The sum and the product of two finite numbers are the exact result rounded
  to the nearest double, a tie going to the even mantissa: the exponent of a value is
  the largest \<open>e\<close> from \<open>-1022\<close> to \<open>1023\<close> with \<open>2^e\<close> not above it (\<open>-1022\<close> for
  the subnormal values), one unit in the last place is \<open>2^(e - 52)\<close>, and a result of
  magnitude \<open>2^1024\<close> is an infinity. A decimal literal is the double nearest to it.
\<close>

datatype number = Fin real | PosInfinity | NegInfinity | NaN

definition pow2 :: "int \<Rightarrow> real" where
  "pow2 e = 2 powi e"

primrec exponent_from :: "real \<Rightarrow> nat \<Rightarrow> int" where
  "exponent_from a 0 = - 1022"
| "exponent_from a (Suc n) =
     (if pow2 (int n - 1021) \<le> a then int n - 1021 else exponent_from a n)"

definition exponent :: "real \<Rightarrow> int" where
  "exponent x = exponent_from \<bar>x\<bar> 2045"

definition round_even :: "real \<Rightarrow> int" where
  "round_even r =
     (let f = \<lfloor>r\<rfloor>; d = r - of_int f
      in if d < 1 / 2 then f else if 1 / 2 < d then f + 1 else if even f then f else f + 1)"

definition round_double :: "real \<Rightarrow> number" where
  "round_double x =
     (if x = 0 then Fin 0
      else (let ulp = pow2 (exponent x - 52);
                y = of_int (round_even (x / ulp)) * ulp
            in if pow2 1024 \<le> \<bar>y\<bar> then (if 0 < x then PosInfinity else NegInfinity)
               else Fin y))"

definition is_infinite :: "number \<Rightarrow> bool" where
  "is_infinite a = (a = PosInfinity \<or> a = NegInfinity)"

fun sign_of :: "number \<Rightarrow> int" where
  "sign_of (Fin x) = (if x = 0 then 0 else if 0 < x then 1 else - 1)"
| "sign_of PosInfinity = 1"
| "sign_of NegInfinity = - 1"
| "sign_of NaN = 0"

text \<open>\<open>a + b\<close>: an infinity absorbs a finite number, and opposite infinities give \<open>NaN\<close>.\<close>

fun num_add :: "number \<Rightarrow> number \<Rightarrow> number" where
  "num_add (Fin x) (Fin y) = round_double (x + y)"
| "num_add a b =
     (if a = NaN \<or> b = NaN then NaN
      else if is_infinite a \<and> is_infinite b then (if a = b then a else NaN)
      else if is_infinite a then a else b)"

text \<open>\<open>a * b\<close>: an infinity times zero is \<open>NaN\<close>, and the signs multiply.\<close>

fun num_mul :: "number \<Rightarrow> number \<Rightarrow> number" where
  "num_mul (Fin x) (Fin y) = round_double (x * y)"
| "num_mul a b =
     (if a = NaN \<or> b = NaN then NaN
      else if sign_of a * sign_of b = 0 then NaN
      else if 0 < sign_of a * sign_of b then PosInfinity else NegInfinity)"

fun num_neg :: "number \<Rightarrow> number" where
  "num_neg (Fin x) = Fin (- x)"
| "num_neg PosInfinity = NegInfinity"
| "num_neg NegInfinity = PosInfinity"
| "num_neg NaN = NaN"

definition num_sub :: "number \<Rightarrow> number \<Rightarrow> number" where
  "num_sub a b = num_add a (num_neg b)"

text \<open>The falsy numbers are zero and \<open>NaN\<close>.\<close>

definition falsy_number :: "number \<Rightarrow> bool" where
  "falsy_number a = (a = Fin 0 \<or> a = NaN)"

text \<open>A whole number as a double.\<close>

definition of_whole :: "int \<Rightarrow> number" where
  "of_whole i = round_double (of_int i)"

subsection \<open>Numbers in template strings\<close>

definition digit_char :: "nat \<Rightarrow> char" where
  "digit_char d = char_of (48 + d)"

function show_nat :: "nat \<Rightarrow> string" where
  "show_nat n = (if n < 10 then [digit_char n] else show_nat (n div 10) @ [digit_char (n mod 10)])"
  by pat_completeness auto
termination
  by (relation "measure (\<lambda>n. n)") auto

declare show_nat.simps [simp del]

text \<open>\<open>`${n}`\<close> for an integral number \<open>n\<close>: decimal digits, with a minus sign below zero.\<close>

definition show_int :: "int \<Rightarrow> string" where
  "show_int i = (if i < 0 then ''-'' @ show_nat (nat (- i)) else show_nat (nat i))"

subsection \<open>The remainder operator\<close>

text \<open>
  \<open>a % b\<close> of JavaScript truncates towards zero: the result has the sign of \<open>a\<close>.
  \<open>Math.floor (a / b)\<close> for a positive \<open>b\<close> is \<open>a div b\<close> of HOL, which rounds down.
\<close>

definition js_rem :: "int \<Rightarrow> int \<Rightarrow> int" where
  "js_rem a b = (if a < 0 then - ((- a) mod \<bar>b\<bar>) else a mod \<bar>b\<bar>)"

section \<open>client/src/lib/utils.ts\<close>

text \<open>
  \<open>calculateWorkingHours (checkIn: string | Date, checkOut: string | Date)\<close>. An argument
  is a string or a \<open>Date\<close>; a string is turned into a \<open>Date\<close> by the \<open>Date\<close>
  constructor, which is part of the runtime and enters as the parameter \<open>parse\<close>
  (\<open>None\<close> is the invalid date, whose time value is \<open>NaN\<close>). The only falsy argument
  of that type is the empty string.
\<close>

datatype date_arg = DateStr string | DateObj Date

fun falsy_arg :: "date_arg \<Rightarrow> bool" where
  "falsy_arg (DateStr s) = (s = [])"
| "falsy_arg (DateObj t) = False"

fun getTime :: "(string \<Rightarrow> Date option) \<Rightarrow> date_arg \<Rightarrow> Date option" where
  "getTime parse (DateStr s) = parse s"
| "getTime parse (DateObj t) = Some t"

definition calculateWorkingHours ::
  "(string \<Rightarrow> Date option) \<Rightarrow> date_arg \<Rightarrow> date_arg \<Rightarrow> string" where
  "calculateWorkingHours parse checkIn checkOut =
     (if falsy_arg checkIn \<or> falsy_arg checkOut then ''-- hrs -- mins''
      else case (getTime parse checkIn, getTime parse checkOut) of
         (Some checkInDate, Some checkOutDate) \<Rightarrow>
           (let diffInMs = checkOutDate - checkInDate;
                diffInHours = diffInMs div (1000 * 60 * 60);
                diffInMinutes = js_rem diffInMs (1000 * 60 * 60) div (1000 * 60)
            in show_int diffInHours @ '' hrs '' @ show_int diffInMinutes @ '' mins'')
       | _ \<Rightarrow> ''NaN hrs NaN mins'')"

section \<open>shared/schema.ts\<close>

text \<open>
  One record per table row type (\<open>$inferSelect\<close>) and one per insert shape. A column
  without \<open>notNull\<close> is an \<open>option\<close>; a \<open>real\<close> column has the type \<open>number\<close>. A
  key that an insert shape may leave out is \<open>None\<close> when it is left out.
\<close>

record User =
  id :: int
  username :: string
  password :: string
  email :: string
  role :: string
  full_name :: "string option"
  avatar_url :: "string option"
  created_at :: "Date option"

record InsertUser =
  username :: string
  password :: string
  email :: string
  role :: string
  full_name :: "string option"
  avatar_url :: "string option"

record Attendance =
  id :: int
  user_id :: int
  check_in :: Date
  check_out :: "Date option"
  "note" :: "string option"
  location :: string
  created_at :: "Date option"

record InsertAttendance =
  user_id :: int
  check_in :: Date
  check_out :: "Date option"
  "note" :: "string option"
  location :: string

record Sale =
  id :: int
  invoice_number :: string
  user_id :: int
  customer_name :: string
  sale_date :: Date
  total_amount :: number
  tax_amount :: number
  discount_amount :: number
  payment_method :: string
  "notes" :: "string option"
  status :: string
  created_at :: "Date option"

record InsertSale =
  invoice_number :: string
  user_id :: int
  customer_name :: string
  sale_date :: Date
  total_amount :: number
  tax_amount :: number
  discount_amount :: number
  payment_method :: string
  "notes" :: "string option"
  status :: string

record SaleItem =
  id :: int
  sale_id :: int
  product_id :: int
  quantity :: int
  unit_price :: number
  created_at :: "Date option"

record InsertSaleItem =
  sale_id :: int
  product_id :: int
  quantity :: int
  unit_price :: number

record Product =
  id :: int
  name :: string
  description :: "string option"
  price :: number
  category_id :: int
  sku :: string
  created_at :: "Date option"

record ProductCategory =
  id :: int
  name :: string
  description :: "string option"
  created_at :: "Date option"

record WorkReport =
  id :: int
  user_id :: int
  title :: string
  report_type :: string
  department :: string
  tasks :: string
  outcomes :: string
  challenges :: "string option"
  next_steps :: "string option"
  status :: string
  created_at :: "Date option"

record InsertWorkReport =
  user_id :: int
  title :: string
  report_type :: string
  department :: string
  tasks :: string
  outcomes :: string
  challenges :: "string option"
  next_steps :: "string option"
  status :: string

text \<open>
  \<open>Partial<InsertAttendance>\<close> and \<open>Partial<InsertWorkReport>\<close>: every key may be
  left out (\<open>None\<close>); a key that is there carries a value of the column's type.
\<close>

record PartialInsertAttendance =
  user_id :: "int option"
  check_in :: "Date option"
  check_out :: "Date option option"
  "note" :: "string option option"
  location :: "string option"

record PartialInsertWorkReport =
  user_id :: "int option"
  title :: "string option"
  report_type :: "string option"
  department :: "string option"
  tasks :: "string option"
  outcomes :: "string option"
  challenges :: "string option option"
  next_steps :: "string option option"
  status :: "string option"

text \<open>The enum of the \<open>role\<close> column, which \<open>insertUserSchema\<close> checks.\<close>

definition role_enum :: "string list" where
  "role_enum = [''admin'', ''karyawan'']"

section \<open>Containers and dates of the runtime\<close>

subsection \<open>Map\<close>

text \<open>
  A \<open>Map\<close> keeps its entries in insertion order: it is the list of its entries.
  \<open>set\<close> on a key that is there replaces the value in place, on a new key it appends.
\<close>

definition Map_get :: "('k \<times> 'v) list \<Rightarrow> 'k \<Rightarrow> 'v option" where
  "Map_get m k = map_of m k"

fun Map_set :: "'k \<Rightarrow> 'v \<Rightarrow> ('k \<times> 'v) list \<Rightarrow> ('k \<times> 'v) list" where
  "Map_set k v [] = [(k, v)]"
| "Map_set k v (e # m) = (if fst e = k then (k, v) # m else e # Map_set k v m)"

definition Map_values :: "('k \<times> 'v) list \<Rightarrow> 'v list" where
  "Map_values m = map snd m"

subsection \<open>Array\<close>

text \<open>
  \<open>slice (start, end)\<close>: a negative index counts from the end of the array, and both
  indices are clamped to the array.
\<close>

definition slice_index :: "nat \<Rightarrow> int \<Rightarrow> nat" where
  "slice_index len i = (if i < 0 then nat (max (int len + i) 0) else min (nat i) len)"

definition Array_slice :: "'a list \<Rightarrow> int \<Rightarrow> int \<Rightarrow> 'a list" where
  "Array_slice xs start end =
     (let k = slice_index (length xs) start;
          final = slice_index (length xs) end
      in take (final - k) (drop k xs))"

text \<open>
  \<open>sort ((a, b) => key (b) - key (a))\<close>: the sort of the runtime is stable, and this
  comparator orders by descending key.
\<close>

definition sort_desc :: "('a \<Rightarrow> int) \<Rightarrow> 'a list \<Rightarrow> 'a list" where
  "sort_desc key xs = sort_key (\<lambda>x. - key x) xs"

text \<open>\<open>new Date (d).getTime ()\<close> for a nullable date: \<open>null\<close> is the epoch.\<close>

definition time_of :: "Date option \<Rightarrow> int" where
  "time_of d = (case d of None \<Rightarrow> 0 | Some t \<Rightarrow> t)"

subsection \<open>Local time\<close>

text \<open>
  The server's local time is \<open>tz\<close> milliseconds ahead of UTC, the same all year (the
  zone has no daylight saving), so that a local day has 86,400,000 milliseconds.
  \<open>setHours (0, 0, 0, 0)\<close> is the start of the local day, \<open>setHours (23, 59, 59, 999)\<close>
  its last millisecond, \<open>setDate (getDate () + 1)\<close> the same time one day later.
\<close>

definition msPerDay :: int where
  "msPerDay = 86400000"

definition startOfDay :: "int \<Rightarrow> Date \<Rightarrow> Date" where
  "startOfDay tz t = t - (t + tz) mod msPerDay"

definition endOfDay :: "int \<Rightarrow> Date \<Rightarrow> Date" where
  "endOfDay tz t = startOfDay tz t + (msPerDay - 1)"

definition nextDay :: "Date \<Rightarrow> Date" where
  "nextDay t = t + msPerDay"

section \<open>server/storage.ts: MemStorage\<close>

text \<open>
  What can be thrown: an \<open>Error\<close> with its message, the error of a schema's \<open>parse\<close>,
  the two errors of the database, with the name of the constraint that is violated,
  and the \<open>TypeError\<close> of a call of what is not a function.
\<close>

datatype error = Error string | ZodError | UniqueViolation string | ForeignKeyViolation string
  | TypeError

record MemStorage =
  users :: "(int \<times> User) list"
  attendance :: "(int \<times> Attendance) list"
  sales :: "(int \<times> Sale) list"
  saleItems :: "(int \<times> SaleItem list) list"
  products :: "(int \<times> Product) list"
  productCategories :: "(int \<times> ProductCategory) list"
  workReports :: "(int \<times> WorkReport) list"
  userIdCounter :: int
  attendanceIdCounter :: int
  saleIdCounter :: int
  saleItemIdCounter :: int
  productIdCounter :: int
  categoryIdCounter :: int
  reportIdCounter :: int

subsection \<open>The constructor and its sample data\<close>

definition sample_categories :: "Date \<Rightarrow> ProductCategory list" where
  "sample_categories now =
    [\<lparr>ProductCategory.id = 1, name = ''Electronics'',
      description = Some ''Electronic devices and gadgets'', created_at = Some now\<rparr>,
     \<lparr>ProductCategory.id = 2, name = ''Office Supplies'',
      description = Some ''Office supplies and stationery'', created_at = Some now\<rparr>,
     \<lparr>ProductCategory.id = 3, name = ''Furniture'',
      description = Some ''Office furniture and fixtures'', created_at = Some now\<rparr>]"

definition sample_product ::
  "Date \<Rightarrow> int \<Rightarrow> string \<Rightarrow> string \<Rightarrow> real \<Rightarrow> int \<Rightarrow> string \<Rightarrow> Product" where
  "sample_product now i n d p c s =
    \<lparr>Product.id = i, name = n, description = Some d, price = Fin p, category_id = c, sku = s,
     created_at = Some now\<rparr>"

definition sample_products :: "Date \<Rightarrow> Product list" where
  "sample_products now =
    [sample_product now 1 ''Laptop'' ''High-performance work laptop'' 15000000 1 ''ELEC-001'',
     sample_product now 2 ''Smartphone'' ''Business smartphone'' 8000000 1 ''ELEC-002'',
     sample_product now 3 ''Tablet'' ''Professional tablet'' 5000000 1 ''ELEC-003'',
     sample_product now 4 ''Paper Ream'' ''500 sheets A4 paper'' 50000 2 ''SUPP-001'',
     sample_product now 5 ''Printer Ink'' ''Black printer ink cartridge'' 250000 2 ''SUPP-002'',
     sample_product now 6 ''Stapler'' ''Heavy duty stapler'' 15000 2 ''SUPP-003'',
     sample_product now 7 ''Office Chair'' ''Ergonomic office chair'' 800000 3 ''FURN-001'',
     sample_product now 8 ''Desk'' ''Executive office desk'' 1200000 3 ''FURN-002'',
     sample_product now 9 ''Filing Cabinet'' ''3-drawer filing cabinet'' 600000 3 ''FURN-003'']"

definition MemStorage_new :: "Date \<Rightarrow> MemStorage" where
  "MemStorage_new now =
    \<lparr>users = [], attendance = [], sales = [], saleItems = [],
     products = foldl (\<lambda>m p. Map_set (Product.id p) p m) [] (sample_products now),
     productCategories =
       foldl (\<lambda>m c. Map_set (ProductCategory.id c) c m) [] (sample_categories now),
     workReports = [],
     userIdCounter = 1, attendanceIdCounter = 1, saleIdCounter = 1, saleItemIdCounter = 1,
     productIdCounter = int (length (sample_products now)) + 1,
     categoryIdCounter = int (length (sample_categories now)) + 1,
     reportIdCounter = 1\<rparr>"

subsection \<open>Users\<close>

text \<open>
  Every method gets the store and returns what the promise resolves to; a method that
  writes returns the store after it as well. A method that can throw returns
  \<open>error + result\<close> next to the store, since a throw does not undo a write.
  \<open>now\<close> is what \<open>new Date ()\<close> reads.
\<close>

definition MemStorage_getUser :: "MemStorage \<Rightarrow> int \<Rightarrow> User option" where
  "MemStorage_getUser this i = Map_get (users this) i"

definition MemStorage_getUserByUsername :: "MemStorage \<Rightarrow> string \<Rightarrow> User option" where
  "MemStorage_getUserByUsername this n =
     find (\<lambda>user. User.username user = n) (Map_values (users this))"

definition MemStorage_getUserByEmail :: "MemStorage \<Rightarrow> string \<Rightarrow> User option" where
  "MemStorage_getUserByEmail this e =
     find (\<lambda>user. User.email user = e) (Map_values (users this))"

definition MemStorage_createUser ::
  "MemStorage \<Rightarrow> Date \<Rightarrow> InsertUser \<Rightarrow> User \<times> MemStorage" where
  "MemStorage_createUser this now insertUser =
     (let i = userIdCounter this;
          user = \<lparr>User.id = i,
                  username = InsertUser.username insertUser,
                  password = InsertUser.password insertUser,
                  email = InsertUser.email insertUser,
                  role = InsertUser.role insertUser,
                  full_name = InsertUser.full_name insertUser,
                  avatar_url = InsertUser.avatar_url insertUser,
                  created_at = Some now\<rparr>
      in (user, this\<lparr>userIdCounter := i + 1, users := Map_set i user (users this)\<rparr>))"

subsection \<open>Attendance\<close>

definition MemStorage_getAttendanceById :: "MemStorage \<Rightarrow> int \<Rightarrow> Attendance option" where
  "MemStorage_getAttendanceById this i = Map_get (attendance this) i"

definition MemStorage_getAttendanceByUserId ::
  "MemStorage \<Rightarrow> int \<Rightarrow> int \<Rightarrow> int \<Rightarrow> Attendance list \<times> nat" where
  "MemStorage_getAttendanceByUserId this userId page limit =
     (let records = sort_desc Attendance.check_in
            (filter (\<lambda>record. Attendance.user_id record = userId)
               (Map_values (attendance this)));
          totalCount = length records;
          startIndex = (page - 1) * limit;
          paginatedRecords = Array_slice records startIndex (startIndex + limit)
      in (paginatedRecords, totalCount))"

definition MemStorage_getTodayAttendanceByUserId ::
  "int \<Rightarrow> MemStorage \<Rightarrow> Date \<Rightarrow> int \<Rightarrow> Attendance option" where
  "MemStorage_getTodayAttendanceByUserId tz this now userId =
     (let today = startOfDay tz now;
          tomorrow = nextDay today
      in find (\<lambda>record. Attendance.user_id record = userId
                 \<and> today \<le> Attendance.check_in record
                 \<and> Attendance.check_in record < tomorrow)
           (Map_values (attendance this)))"

definition MemStorage_createAttendance ::
  "MemStorage \<Rightarrow> Date \<Rightarrow> InsertAttendance \<Rightarrow> Attendance \<times> MemStorage" where
  "MemStorage_createAttendance this now attendanceData =
     (let i = attendanceIdCounter this;
          record = \<lparr>Attendance.id = i,
                    user_id = InsertAttendance.user_id attendanceData,
                    check_in = InsertAttendance.check_in attendanceData,
                    check_out = InsertAttendance.check_out attendanceData,
                    note = InsertAttendance.note attendanceData,
                    location = InsertAttendance.location attendanceData,
                    created_at = Some now\<rparr>
      in (record,
          this\<lparr>attendanceIdCounter := i + 1, attendance := Map_set i record (attendance this)\<rparr>))"

text \<open>\<open>{ ...record, ...data }\<close>: the keys of \<open>data\<close> win.\<close>

definition spread :: "'a \<Rightarrow> 'a option \<Rightarrow> 'a" where
  "spread old new = (case new of None \<Rightarrow> old | Some v \<Rightarrow> v)"

definition merge_Attendance :: "Attendance \<Rightarrow> PartialInsertAttendance \<Rightarrow> Attendance" where
  "merge_Attendance record data =
     record\<lparr>Attendance.user_id :=
              spread (Attendance.user_id record) (PartialInsertAttendance.user_id data),
            Attendance.check_in :=
              spread (Attendance.check_in record) (PartialInsertAttendance.check_in data),
            Attendance.check_out :=
              spread (Attendance.check_out record) (PartialInsertAttendance.check_out data),
            Attendance.note :=
              spread (Attendance.note record) (PartialInsertAttendance.note data),
            Attendance.location :=
              spread (Attendance.location record) (PartialInsertAttendance.location data)\<rparr>"

definition MemStorage_updateAttendance ::
  "MemStorage \<Rightarrow> int \<Rightarrow> PartialInsertAttendance \<Rightarrow> (error + Attendance) \<times> MemStorage" where
  "MemStorage_updateAttendance this i data =
     (case Map_get (attendance this) i of
        None \<Rightarrow> (Inl (Error (''Attendance record with id '' @ show_int i @ '' not found'')), this)
      | Some record \<Rightarrow>
          (let updated = merge_Attendance record data
           in (Inr updated, this\<lparr>attendance := Map_set i updated (attendance this)\<rparr>)))"

subsection \<open>Sales\<close>

definition MemStorage_getSaleById :: "MemStorage \<Rightarrow> int \<Rightarrow> Sale option" where
  "MemStorage_getSaleById this i = Map_get (sales this) i"

definition MemStorage_getSalesByUserId ::
  "MemStorage \<Rightarrow> int \<Rightarrow> int \<Rightarrow> int \<Rightarrow> Sale list \<times> nat" where
  "MemStorage_getSalesByUserId this userId page limit =
     (let salesList = sort_desc (\<lambda>sale. time_of (Sale.created_at sale))
            (filter (\<lambda>sale. Sale.user_id sale = userId) (Map_values (sales this)));
          totalCount = length salesList;
          startIndex = (page - 1) * limit;
          paginatedSales = Array_slice salesList startIndex (startIndex + limit)
      in (paginatedSales, totalCount))"

text \<open>
  \<open>getDailySalesByDate\<close>: \<open>reduce\<close> adds the amounts as doubles, from 0 and from the
  left, in the order of the values of the map; \<open>Number\<close> of a number is that number.
\<close>

definition MemStorage_getDailySalesByDate :: "int \<Rightarrow> MemStorage \<Rightarrow> Date \<Rightarrow> number \<times> nat" where
  "MemStorage_getDailySalesByDate tz this date =
     (let startDate = startOfDay tz date;
          endDate = endOfDay tz date;
          salesList = filter (\<lambda>sale. startDate \<le> Sale.sale_date sale
                                  \<and> Sale.sale_date sale \<le> endDate)
                        (Map_values (sales this));
          totalSales = foldl (\<lambda>sum sale. num_add sum (Sale.total_amount sale)) (Fin 0) salesList;
          transactions = length salesList
      in (totalSales, transactions))"


definition upper_char :: "char \<Rightarrow> char" where
  "upper_char c =
     (let n = (of_char c :: nat) in if 97 \<le> n \<and> n \<le> 122 then char_of (n - 32) else c)"

definition toUpperCase :: "string \<Rightarrow> string" where
  "toUpperCase s = map upper_char s"

text \<open>
  \<open>toISOString\<close> prints the UTC date and time of a time value as
  \<open>YYYY-MM-DDTHH:mm:ss.sssZ\<close>, with a sign and six digits for a year outside 0 to 9999.
  The date is the one of the language standard: \<open>YearFromTime\<close> is the largest year
  whose first day is not after the day of the time value (found by going up from a
  year that is not after it), and the month and the day of the month are read from the
  table of the days in a year.
\<close>

definition Day :: "Date \<Rightarrow> int" where
  "Day t = t div msPerDay"

definition DaysInYear :: "int \<Rightarrow> int" where
  "DaysInYear y =
     (if y mod 4 \<noteq> 0 then 365 else if y mod 100 \<noteq> 0 then 366
      else if y mod 400 \<noteq> 0 then 365 else 366)"

definition DayFromYear :: "int \<Rightarrow> int" where
  "DayFromYear y =
     365 * (y - 1970) + (y - 1969) div 4 - (y - 1901) div 100 + (y - 1601) div 400"

function year_search :: "int \<Rightarrow> int \<Rightarrow> int" where
  "year_search day y = (if DayFromYear (y + 1) \<le> day then year_search day (y + 1) else y)"
  by pat_completeness auto
termination
proof (relation "measure (\<lambda>(day, y). nat (day - DayFromYear y))")
  show "wf (measure (\<lambda>(day, y). nat (day - DayFromYear y)))"
    by simp
next
  fix day y :: int
  assume "DayFromYear (y + 1) \<le> day"
  moreover have "DayFromYear y < DayFromYear (y + 1)"
  proof -
    have "(y - 1969) div 4 \<le> (y + 1 - 1969) div 4"
      by (rule zdiv_mono1) simp_all
    moreover have "(y + 1 - 1901) div 100 \<le> (y - 1901) div 100 + 1"
      by linarith
    moreover have "(y - 1601) div 400 \<le> (y + 1 - 1601) div 400"
      by (rule zdiv_mono1) simp_all
    moreover have "365 * (y - 1970) + a1 - b1 + c1 < 365 * (y + 1 - 1970) + a2 - b2 + c2"
      if "a1 \<le> a2" "b2 \<le> b1 + 1" "c1 \<le> c2" for a1 a2 b1 b2 c1 c2 :: int
      using that by (simp add: algebra_simps)
    ultimately show ?thesis
      unfolding DayFromYear_def by blast
  qed
  ultimately show "((day, y + 1), (day, y)) \<in> measure (\<lambda>(day, y). nat (day - DayFromYear y))"
    by simp
qed

declare year_search.simps [simp del]

definition YearFromTime :: "Date \<Rightarrow> int" where
  "YearFromTime t =
     (let day = Day t
      in year_search day (1970 + (if 0 \<le> day then day div 366 else day div 365)))"

definition DayWithinYear :: "Date \<Rightarrow> int" where
  "DayWithinYear t = Day t - DayFromYear (YearFromTime t)"

definition InLeapYear :: "Date \<Rightarrow> int" where
  "InLeapYear t = (if DaysInYear (YearFromTime t) = 366 then 1 else 0)"

definition MonthFromTime :: "Date \<Rightarrow> int" where
  "MonthFromTime t =
     (let d = DayWithinYear t; leap = InLeapYear t
      in if d < 31 then 0 else if d < 59 + leap then 1 else if d < 90 + leap then 2
         else if d < 120 + leap then 3 else if d < 151 + leap then 4
         else if d < 181 + leap then 5 else if d < 212 + leap then 6
         else if d < 243 + leap then 7 else if d < 273 + leap then 8
         else if d < 304 + leap then 9 else if d < 334 + leap then 10 else 11)"

definition DateFromTime :: "Date \<Rightarrow> int" where
  "DateFromTime t =
     (let d = DayWithinYear t; leap = InLeapYear t; m = MonthFromTime t
      in if m = 0 then d + 1 else if m = 1 then d - 30 else if m = 2 then d - 58 - leap
         else if m = 3 then d - 89 - leap else if m = 4 then d - 119 - leap
         else if m = 5 then d - 150 - leap else if m = 6 then d - 180 - leap
         else if m = 7 then d - 211 - leap else if m = 8 then d - 242 - leap
         else if m = 9 then d - 272 - leap else if m = 10 then d - 303 - leap
         else d - 333 - leap)"

definition padStart :: "nat \<Rightarrow> string \<Rightarrow> string" where
  "padStart w s = replicate (w - length s) CHR ''0'' @ s"

definition iso_year :: "int \<Rightarrow> string" where
  "iso_year y =
     (if 0 \<le> y \<and> y \<le> 9999 then padStart 4 (show_nat (nat y))
      else (if y < 0 then ''-'' else ''+'') @ padStart 6 (show_nat (nat \<bar>y\<bar>)))"

definition toISOString :: "Date \<Rightarrow> string" where
  "toISOString t =
     (let y = YearFromTime t; m = MonthFromTime t + 1; d = DateFromTime t;
          ms = t mod msPerDay
      in iso_year y @ ''-'' @ padStart 2 (show_nat (nat m)) @ ''-'' @ padStart 2 (show_nat (nat d))
         @ ''T'' @ padStart 2 (show_nat (nat (ms div 3600000)))
         @ '':'' @ padStart 2 (show_nat (nat (ms div 60000 mod 60)))
         @ '':'' @ padStart 2 (show_nat (nat (ms div 1000 mod 60)))
         @ ''.'' @ padStart 3 (show_nat (nat (ms mod 1000))) @ ''Z'')"

text \<open>\<open>s.replace (/-/g, '')\<close>.\<close>

definition remove_hyphens :: "string \<Rightarrow> string" where
  "remove_hyphens s = filter (\<lambda>c. c \<noteq> CHR ''-'') s"

text \<open>
  \<open>createSale\<close>: \<open>rid\<close> is what \<open>nanoid (6)\<close> returns, read only when the invoice
  number is empty. Both readings of the clock in \<open>createSale\<close> are \<open>now\<close>.
\<close>

definition MemStorage_createSale ::
  "MemStorage \<Rightarrow> Date \<Rightarrow> string \<Rightarrow> InsertSale \<Rightarrow> Sale \<times> MemStorage" where
  "MemStorage_createSale this now rid saleData =
     (let i = saleIdCounter this;
          invoice =
            (if InsertSale.invoice_number saleData = []
             then (let dateStr = remove_hyphens (Array_slice (toISOString now) 0 10)
                   in ''INV-'' @ dateStr @ ''-'' @ toUpperCase rid)
             else InsertSale.invoice_number saleData);
          sale = \<lparr>Sale.id = i,
                  invoice_number = invoice,
                  user_id = InsertSale.user_id saleData,
                  customer_name = InsertSale.customer_name saleData,
                  sale_date = InsertSale.sale_date saleData,
                  total_amount = InsertSale.total_amount saleData,
                  tax_amount = InsertSale.tax_amount saleData,
                  discount_amount = InsertSale.discount_amount saleData,
                  payment_method = InsertSale.payment_method saleData,
                  notes = InsertSale.notes saleData,
                  status = InsertSale.status saleData,
                  created_at = Some now\<rparr>
      in (sale, this\<lparr>saleIdCounter := i + 1, sales := Map_set i sale (sales this)\<rparr>))"

definition MemStorage_createSaleItem ::
  "MemStorage \<Rightarrow> Date \<Rightarrow> InsertSaleItem \<Rightarrow> SaleItem \<times> MemStorage" where
  "MemStorage_createSaleItem this now saleItem =
     (let i = saleItemIdCounter this;
          item = \<lparr>SaleItem.id = i,
                  sale_id = InsertSaleItem.sale_id saleItem,
                  product_id = InsertSaleItem.product_id saleItem,
                  quantity = InsertSaleItem.quantity saleItem,
                  unit_price = InsertSaleItem.unit_price saleItem,
                  created_at = Some now\<rparr>;
          saleId = InsertSaleItem.sale_id saleItem;
          existingItems = (case Map_get (saleItems this) saleId of None \<Rightarrow> [] | Some items \<Rightarrow> items)
      in (item, this\<lparr>saleItemIdCounter := i + 1,
                      saleItems := Map_set saleId (existingItems @ [item]) (saleItems this)\<rparr>))"

definition MemStorage_getSaleItemsBySaleId :: "MemStorage \<Rightarrow> int \<Rightarrow> SaleItem list" where
  "MemStorage_getSaleItemsBySaleId this saleId =
     (case Map_get (saleItems this) saleId of None \<Rightarrow> [] | Some items \<Rightarrow> items)"

subsection \<open>Products\<close>

definition MemStorage_getProductById :: "MemStorage \<Rightarrow> int \<Rightarrow> Product option" where
  "MemStorage_getProductById this i = Map_get (products this) i"

definition MemStorage_getProductsByCategory :: "MemStorage \<Rightarrow> int \<Rightarrow> Product list" where
  "MemStorage_getProductsByCategory this categoryId =
     filter (\<lambda>product. Product.category_id product = categoryId) (Map_values (products this))"

definition MemStorage_getProductCategories :: "MemStorage \<Rightarrow> ProductCategory list" where
  "MemStorage_getProductCategories this = Map_values (productCategories this)"

subsection \<open>Work reports\<close>

definition MemStorage_getWorkReportById :: "MemStorage \<Rightarrow> int \<Rightarrow> WorkReport option" where
  "MemStorage_getWorkReportById this i = Map_get (workReports this) i"

definition MemStorage_getWorkReportsByUserId ::
  "MemStorage \<Rightarrow> int \<Rightarrow> int \<Rightarrow> int \<Rightarrow> WorkReport list \<times> nat" where
  "MemStorage_getWorkReportsByUserId this userId page limit =
     (let reports = sort_desc (\<lambda>report. time_of (WorkReport.created_at report))
            (filter (\<lambda>report. WorkReport.user_id report = userId)
               (Map_values (workReports this)));
          totalCount = length reports;
          startIndex = (page - 1) * limit;
          paginatedReports = Array_slice reports startIndex (startIndex + limit)
      in (paginatedReports, totalCount))"

definition MemStorage_createWorkReport ::
  "MemStorage \<Rightarrow> Date \<Rightarrow> InsertWorkReport \<Rightarrow> WorkReport \<times> MemStorage" where
  "MemStorage_createWorkReport this now reportData =
     (let i = reportIdCounter this;
          report = \<lparr>WorkReport.id = i,
                    user_id = InsertWorkReport.user_id reportData,
                    title = InsertWorkReport.title reportData,
                    report_type = InsertWorkReport.report_type reportData,
                    department = InsertWorkReport.department reportData,
                    tasks = InsertWorkReport.tasks reportData,
                    outcomes = InsertWorkReport.outcomes reportData,
                    challenges = InsertWorkReport.challenges reportData,
                    next_steps = InsertWorkReport.next_steps reportData,
                    status = InsertWorkReport.status reportData,
                    created_at = Some now\<rparr>
      in (report,
          this\<lparr>reportIdCounter := i + 1, workReports := Map_set i report (workReports this)\<rparr>))"

definition merge_WorkReport :: "WorkReport \<Rightarrow> PartialInsertWorkReport \<Rightarrow> WorkReport" where
  "merge_WorkReport report data =
     report\<lparr>WorkReport.user_id :=
              spread (WorkReport.user_id report) (PartialInsertWorkReport.user_id data),
            WorkReport.title :=
              spread (WorkReport.title report) (PartialInsertWorkReport.title data),
            WorkReport.report_type :=
              spread (WorkReport.report_type report) (PartialInsertWorkReport.report_type data),
            WorkReport.department :=
              spread (WorkReport.department report) (PartialInsertWorkReport.department data),
            WorkReport.tasks :=
              spread (WorkReport.tasks report) (PartialInsertWorkReport.tasks data),
            WorkReport.outcomes :=
              spread (WorkReport.outcomes report) (PartialInsertWorkReport.outcomes data),
            WorkReport.challenges :=
              spread (WorkReport.challenges report) (PartialInsertWorkReport.challenges data),
            WorkReport.next_steps :=
              spread (WorkReport.next_steps report) (PartialInsertWorkReport.next_steps data),
            WorkReport.status :=
              spread (WorkReport.status report) (PartialInsertWorkReport.status data)\<rparr>"

definition MemStorage_updateWorkReport ::
  "MemStorage \<Rightarrow> int \<Rightarrow> PartialInsertWorkReport \<Rightarrow> (error + WorkReport) \<times> MemStorage" where
  "MemStorage_updateWorkReport this i data =
     (case Map_get (workReports this) i of
        None \<Rightarrow> (Inl (Error (''Work report with id '' @ show_int i @ '' not found'')), this)
      | Some report \<Rightarrow>
          (let updated = merge_WorkReport report data
           in (Inr updated, this\<lparr>workReports := Map_set i updated (workReports this)\<rparr>)))"

section \<open>server/routes.ts\<close>

text \<open>
  The exported \<open>storage\<close> is a \<open>MemStorage\<close>. A handler gets the store and returns
  the response (status and JSON body) with the store after it. What the runtime and the
  libraries supply enters as parameters: \<open>clock k\<close> is the \<open>k\<close>-th reading of
  \<open>new Date ()\<close> during the request, \<open>nanoid k\<close> the \<open>k\<close>-th result of
  \<open>nanoid (6)\<close>, \<open>Date_parse\<close> the \<open>Date\<close> constructor on a string (\<open>None\<close>
  is the invalid date), \<open>parseInt\<close> the function of that name (\<open>None\<close> is
  \<open>NaN\<close>), \<open>fmt\<close> the \<open>Intl.NumberFormat\<close> for rupiah, and \<open>auth_getUser\<close> the
  identity provider. A body field that the handler casts to a form type has that type.
\<close>

datatype body =
    Message string
  | ErrorMessage error
  | UserJson User
  | Stats string string string string
  | CheckIn int string string
  | CheckOut int string string string
  | SaleCreated int string number string

type_synonym response = "nat \<times> body"

text \<open>
  Modelled from the spec: the types \<open>UserProfile\<close>, \<open>AttendanceFormData\<close> and
  \<open>SalesFormData\<close> of \<open>shared/types.ts\<close> are not among the sources. The profile
  is the minimal profile object of the specification (id, username, role, avatar, full
  name, email), with the fields that \<open>validateSession\<close> fills; the request bodies are
  \<open>{attendanceType, note?}\<close> and \<open>{saleDate, customerName, productItems[],
  paymentMethod, notes?}\<close>, with the fields that the handlers read.
  \<open>UserProfile.id\<close> is the decimal string of the numeric user id, which every handler
  reads back with \<open>parseInt\<close>; the model keeps the number.
\<close>

record UserProfile =
  id :: int
  username :: string
  role :: string
  avatar_url :: "string option"
  full_name :: "string option"
  email :: string

datatype auth_result = AuthThrows error | AuthError | AuthUser "string option"

definition startsWith :: "string \<Rightarrow> string \<Rightarrow> bool" where
  "startsWith p s = (take (length p) s = p)"

definition validateSession ::
  "(string \<Rightarrow> auth_result) \<Rightarrow> MemStorage \<Rightarrow> string option \<Rightarrow> error + UserProfile option" where
  "validateSession auth_getUser storage authHeader =
     (case authHeader of
        None \<Rightarrow> Inr None
      | Some h \<Rightarrow>
          if h = [] \<or> \<not> startsWith ''Bearer '' h then Inr None
          else (let token = drop (length ''Bearer '') h
                in case auth_getUser token of
                     AuthThrows e \<Rightarrow> Inl e
                   | AuthError \<Rightarrow> Inr None
                   | AuthUser mail \<Rightarrow>
                       (case MemStorage_getUserByEmail storage
                               (case mail of None \<Rightarrow> [] | Some e \<Rightarrow> e) of
                          None \<Rightarrow> Inr None
                        | Some user \<Rightarrow>
                            Inr (Some \<lparr>UserProfile.id = User.id user,
                                       username = User.username user,
                                       role = User.role user,
                                       avatar_url = User.avatar_url user,
                                       full_name = User.full_name user,
                                       email = User.email user\<rparr>))))"

definition protectedRoute ::
  "(string \<Rightarrow> auth_result) \<Rightarrow> MemStorage \<Rightarrow> string option \<Rightarrow>
   (UserProfile \<Rightarrow> response \<times> MemStorage) \<Rightarrow> response \<times> MemStorage" where
  "protectedRoute auth_getUser storage authHeader handler =
     (case validateSession auth_getUser storage authHeader of
        Inl e \<Rightarrow> ((500, ErrorMessage e), storage)
      | Inr None \<Rightarrow> ((401, Message ''Unauthorized access''), storage)
      | Inr (Some user) \<Rightarrow> handler user)"

subsection \<open>POST /api/users\<close>

text \<open>
  A field of the request body is missing, \<open>null\<close>, of the wrong type, or a string.
  \<open>insertUserSchema\<close> wants the four \<open>notNull\<close> columns as strings, the role in its
  enum, and lets the two nullable columns be absent or \<open>null\<close>.
\<close>

datatype field = Missing | Null | Mistyped | Str string

record UserBody =
  username :: field
  password :: field
  email :: field
  role :: field
  full_name :: field
  avatar_url :: field

fun required :: "field \<Rightarrow> string option" where
  "required (Str s) = Some s"
| "required _ = None"

fun nullable :: "field \<Rightarrow> string option option" where
  "nullable (Str s) = Some (Some s)"
| "nullable Mistyped = None"
| "nullable _ = Some None"

definition insertUserSchema_parse :: "UserBody \<Rightarrow> error + InsertUser" where
  "insertUserSchema_parse b =
     (case (required (UserBody.username b), required (UserBody.password b),
            required (UserBody.email b), required (UserBody.role b),
            nullable (UserBody.full_name b), nullable (UserBody.avatar_url b)) of
        (Some u, Some p, Some e, Some r, Some f, Some a) \<Rightarrow>
          if r \<in> set role_enum
          then Inr \<lparr>InsertUser.username = u, password = p, email = e, role = r,
                    full_name = f, avatar_url = a\<rparr>
          else Inl ZodError
      | _ \<Rightarrow> Inl ZodError)"

definition post_users :: "MemStorage \<Rightarrow> (nat \<Rightarrow> Date) \<Rightarrow> UserBody \<Rightarrow> response \<times> MemStorage" where
  "post_users storage clock b =
     (case insertUserSchema_parse b of
        Inl e \<Rightarrow> ((400, ErrorMessage e), storage)
      | Inr userData \<Rightarrow>
          (case MemStorage_getUserByEmail storage (InsertUser.email userData) of
             Some existingUser \<Rightarrow> ((400, Message ''User with this email already exists''), storage)
           | None \<Rightarrow>
               (let (user, storage') = MemStorage_createUser storage (clock 0) userData
                in ((201, UserJson user), storage'))))"

subsection \<open>GET /api/dashboard/stats\<close>

text \<open>
  \<open>fmt\<close> is \<open>format\<close> of the \<open>Intl.NumberFormat\<close> of the handler. \<open>totalSales || 45750000\<close>
  is the constant when the total is falsy, that is, 0 or \<open>NaN\<close>.
\<close>

definition get_dashboard_stats ::
  "int \<Rightarrow> (number \<Rightarrow> string) \<Rightarrow> MemStorage \<Rightarrow> (nat \<Rightarrow> Date) \<Rightarrow> UserProfile \<Rightarrow> response \<times> MemStorage" where
  "get_dashboard_stats tz fmt storage clock user =
     (let today = clock 0;
          (totalSales, transactions) = MemStorage_getDailySalesByDate tz storage today;
          stats = Stats (fmt (if falsy_number totalSales then Fin 45750000 else totalSales))
                    ''97.8%'' ''85.2%'' ''42/50''
      in ((200, stats), storage))"

subsection \<open>POST /api/attendance\<close>

text \<open>
  \<open>formatTime\<close> of \<open>utils.ts\<close> prints \<open>hh:mm a\<close> in local time: the hour of a 12-hour
  clock, the minute, and \<open>AM\<close> or \<open>PM\<close>. It returns the empty string, and
  \<open>calculateWorkingHours\<close> its dashes, for a date that is not there.
\<close>

definition formatTime :: "int \<Rightarrow> Date option \<Rightarrow> string" where
  "formatTime tz date =
     (case date of
        None \<Rightarrow> []
      | Some t \<Rightarrow>
          (let local = (t + tz) mod msPerDay;
               h = local div 3600000;
               m = local div 60000 mod 60;
               h12 = (if h mod 12 = 0 then 12 else h mod 12)
           in padStart 2 (show_nat (nat h12)) @ '':'' @ padStart 2 (show_nat (nat m))
              @ '' '' @ (if h < 12 then ''AM'' else ''PM'')))"

definition workingHours :: "(string \<Rightarrow> Date option) \<Rightarrow> Date \<Rightarrow> Date option \<Rightarrow> string" where
  "workingHours Date_parse checkIn checkOut =
     (case checkOut of
        None \<Rightarrow> ''-- hrs -- mins''
      | Some t \<Rightarrow> calculateWorkingHours Date_parse (DateObj checkIn) (DateObj t))"

text \<open>A string that may be \<open>null\<close> or \<open>undefined\<close> is truthy when it is there and not empty.\<close>

definition truthy :: "string option \<Rightarrow> bool" where
  "truthy s = (case s of None \<Rightarrow> False | Some v \<Rightarrow> v \<noteq> [])"

definition checkout_note :: "string option \<Rightarrow> string option \<Rightarrow> string option" where
  "checkout_note existing n =
     (if truthy n
      then (if truthy existing then Some (the existing @ ''; '' @ the n) else n)
      else existing)"

definition post_attendance ::
  "int \<Rightarrow> (string \<Rightarrow> Date option) \<Rightarrow> MemStorage \<Rightarrow> (nat \<Rightarrow> Date) \<Rightarrow> UserProfile \<Rightarrow>
   string \<Rightarrow> string option \<Rightarrow> response \<times> MemStorage" where
  "post_attendance tz Date_parse storage clock user attendanceType n =
     (let userId = UserProfile.id user
      in if attendanceType = ''checkin'' then
           (case MemStorage_getTodayAttendanceByUserId tz storage (clock 0) userId of
              Some existingRecord \<Rightarrow> ((400, Message ''Already checked in today''), storage)
            | None \<Rightarrow>
                (let attendanceData =
                       \<lparr>InsertAttendance.user_id = userId,
                        check_in = clock 1,
                        check_out = None,
                        note = (if truthy n then n else None),
                        location = ''Office - Jakarta Headquarters''\<rparr>;
                     (record, storage') = MemStorage_createAttendance storage (clock 2) attendanceData
                 in ((201, CheckIn (Attendance.id record)
                             (formatTime tz (Some (Attendance.check_in record)))
                             ''Check-in successful''),
                     storage')))
         else if attendanceType = ''checkout'' then
           (case MemStorage_getTodayAttendanceByUserId tz storage (clock 0) userId of
              None \<Rightarrow> ((400, Message ''No check-in record found for today''), storage)
            | Some existingRecord \<Rightarrow>
                if Attendance.check_out existingRecord \<noteq> None
                then ((400, Message ''Already checked out today''), storage)
                else
                  (case MemStorage_updateAttendance storage (Attendance.id existingRecord)
                          \<lparr>PartialInsertAttendance.user_id = None,
                           check_in = None,
                           check_out = Some (Some (clock 1)),
                           note = Some (checkout_note (Attendance.note existingRecord) n),
                           location = None\<rparr> of
                     (Inl e, storage') \<Rightarrow> ((400, ErrorMessage e), storage')
                   | (Inr updated, storage') \<Rightarrow>
                       ((200, CheckOut (Attendance.id updated)
                                (formatTime tz (Attendance.check_out updated))
                                (workingHours Date_parse (Attendance.check_in updated)
                                   (Attendance.check_out updated))
                                ''Check-out successful''),
                        storage')))
         else ((400, Message ''Invalid attendance type''), storage))"

subsection \<open>POST /api/sales\<close>

text \<open>
  Modelled from the spec: an element of \<open>productItems\<close> of \<open>SalesFormData\<close>, with
  the fields that the handler reads and the types of the sales form of the client: the
  product id is a string, the price a number, the quantity a whole number.
\<close>

record ProductItem =
  productId :: string
  quantity :: int
  price :: number

text \<open>
  The items are written one after the other; \<open>insertSaleItemSchema\<close> throws on a
  product id that is not a number, and the items written before it stay. (A price
  that is \<open>NaN\<close> does not get this far: it makes the amounts of the sale \<open>NaN\<close>.)
\<close>

fun create_sale_items ::
  "(string \<Rightarrow> int option) \<Rightarrow> MemStorage \<Rightarrow> (nat \<Rightarrow> Date) \<Rightarrow> nat \<Rightarrow> int \<Rightarrow> ProductItem list \<Rightarrow>
   error option \<times> MemStorage" where
  "create_sale_items parseInt storage clock k saleId [] = (None, storage)"
| "create_sale_items parseInt storage clock k saleId (item # items) =
     (case parseInt (ProductItem.productId item) of
        None \<Rightarrow> (Some ZodError, storage)
      | Some pid \<Rightarrow>
          (let saleItemData = \<lparr>InsertSaleItem.sale_id = saleId,
                                product_id = pid,
                                quantity = ProductItem.quantity item,
                                unit_price = ProductItem.price item\<rparr>;
               (saleItem, storage') = MemStorage_createSaleItem storage (clock k) saleItemData
           in create_sale_items parseInt storage' clock (Suc k) saleId items))"

text \<open>
  The amounts are computed in the arithmetic of numbers, the sum from the left.
  \<open>insertSaleSchema\<close> (for a \<open>real\<close> column the schema of a number) throws on a sale
  date that is no date and on an amount that is \<open>NaN\<close>, before anything is written.
\<close>

definition post_sales ::
  "(string \<Rightarrow> Date option) \<Rightarrow> (string \<Rightarrow> int option) \<Rightarrow> MemStorage \<Rightarrow> (nat \<Rightarrow> Date) \<Rightarrow>
   (nat \<Rightarrow> string) \<Rightarrow> UserProfile \<Rightarrow> string \<Rightarrow> string \<Rightarrow> ProductItem list \<Rightarrow> string \<Rightarrow>
   string option \<Rightarrow> response \<times> MemStorage" where
  "post_sales Date_parse parseInt storage clock nanoid user saleDate customerName productItems
     paymentMethod ns =
     (let userId = UserProfile.id user;
          subtotal = foldl (\<lambda>sum item. num_add sum
                                (num_mul (ProductItem.price item)
                                   (of_whole (ProductItem.quantity item))))
                       (Fin 0) productItems;
          taxAmount = num_mul subtotal (round_double (11 / 100));
          discountAmount = Fin 0;
          totalAmount = num_sub (num_add subtotal taxAmount) discountAmount
      in case Date_parse saleDate of
           None \<Rightarrow> ((400, ErrorMessage ZodError), storage)
         | Some date \<Rightarrow>
             if totalAmount = NaN \<or> taxAmount = NaN \<or> discountAmount = NaN
             then ((400, ErrorMessage ZodError), storage)
             else
             (let saleData =
                    \<lparr>InsertSale.invoice_number =
                       ''INV-'' @ remove_hyphens saleDate @ ''-'' @ toUpperCase (nanoid 0),
                     user_id = userId,
                     customer_name = customerName,
                     sale_date = date,
                     total_amount = totalAmount,
                     tax_amount = taxAmount,
                     discount_amount = discountAmount,
                     payment_method = paymentMethod,
                     notes = (if truthy ns then ns else None),
                     status = ''completed''\<rparr>;
                  (sale, storage1) = MemStorage_createSale storage (clock 0) (nanoid 1) saleData
              in case create_sale_items parseInt storage1 clock 1 (Sale.id sale) productItems of
                   (Some e, storage2) \<Rightarrow> ((400, ErrorMessage e), storage2)
                 | (None, storage2) \<Rightarrow>
                     ((201, SaleCreated (Sale.id sale) (Sale.invoice_number sale) totalAmount
                              ''Sale recorded successfully''),
                      storage2)))"

section \<open>server/storage.ts: SupabaseStorage\<close>

text \<open>
  The relational store behind the query builder: a table is the list of its rows, in
  the order in which a scan without \<open>orderBy\<close> returns them, and a \<open>serial\<close> column
  draws its value from a sequence. \<open>where\<close> keeps the rows that match, \<open>limit (1)\<close>
  the first of them, and \<open>result[0]\<close> of an empty result is \<open>undefined\<close> (\<open>None\<close>).
  The constraints are those of \<open>schema.ts\<close>: \<open>username\<close> and \<open>email\<close> of a user are
  \<open>unique\<close>, and an insert that violates one fails after it has drawn from the
  sequence. Of the class, the methods below are modelled, each first as its query on
  the tables, for a connection that runs queries.
\<close>

record Database =
  users :: "User list"
  attendance :: "Attendance list"
  sales :: "Sale list"
  products :: "Product list"
  workReports :: "WorkReport list"
  users_id_seq :: int

definition first_row :: "'a list \<Rightarrow> 'a option" where
  "first_row result = (case result of [] \<Rightarrow> None | r # rest \<Rightarrow> Some r)"

definition SupabaseStorage_createUser ::
  "Database \<Rightarrow> Date \<Rightarrow> InsertUser \<Rightarrow> (error + User option) \<times> Database" where
  "SupabaseStorage_createUser db now user =
     (let i = users_id_seq db;
          row = \<lparr>User.id = i,
                 username = InsertUser.username user,
                 password = InsertUser.password user,
                 email = InsertUser.email user,
                 role = InsertUser.role user,
                 full_name = InsertUser.full_name user,
                 avatar_url = InsertUser.avatar_url user,
                 created_at = Some now\<rparr>;
          db1 = db\<lparr>users_id_seq := i + 1\<rparr>
      in if i \<in> set (map User.id (Database.users db))
         then (Inl (UniqueViolation ''users_pkey''), db1)
         else if InsertUser.username user \<in> set (map User.username (Database.users db))
         then (Inl (UniqueViolation ''users_username_unique''), db1)
         else if InsertUser.email user \<in> set (map User.email (Database.users db))
         then (Inl (UniqueViolation ''users_email_unique''), db1)
         else (Inr (first_row [row]), db1\<lparr>Database.users := Database.users db @ [row]\<rparr>))"

text \<open>
  \<open>update (attendance).set (data).where (eq (attendance.id, id)).returning ()\<close> writes
  the keys of \<open>data\<close> into every row that matches and returns those rows as they are
  afterwards. The builder refuses a \<open>data\<close> without any key, and the table refuses a
  \<open>user_id\<close> that is no user's id when a row is written.
\<close>

definition no_keys_Attendance :: "PartialInsertAttendance \<Rightarrow> bool" where
  "no_keys_Attendance data =
     (PartialInsertAttendance.user_id data = None \<and> PartialInsertAttendance.check_in data = None
      \<and> PartialInsertAttendance.check_out data = None \<and> PartialInsertAttendance.note data = None
      \<and> PartialInsertAttendance.location data = None)"

definition SupabaseStorage_updateAttendance ::
  "Database \<Rightarrow> int \<Rightarrow> PartialInsertAttendance \<Rightarrow> (error + Attendance option) \<times> Database" where
  "SupabaseStorage_updateAttendance db i data =
     (let hit = filter (\<lambda>r. Attendance.id r = i) (Database.attendance db)
      in if no_keys_Attendance data then (Inl (Error ''No values to set''), db)
         else if hit \<noteq> [] \<and>
                 (case PartialInsertAttendance.user_id data of
                    None \<Rightarrow> False
                  | Some u \<Rightarrow> u \<notin> set (map User.id (Database.users db)))
         then (Inl (ForeignKeyViolation ''attendance_user_id_users_id_fk''), db)
         else (let result = map (\<lambda>r. merge_Attendance r data) hit
               in (Inr (first_row result),
                   db\<lparr>Database.attendance :=
                        map (\<lambda>r. if Attendance.id r = i then merge_Attendance r data else r)
                          (Database.attendance db)\<rparr>)))"

definition no_keys_WorkReport :: "PartialInsertWorkReport \<Rightarrow> bool" where
  "no_keys_WorkReport data =
     (PartialInsertWorkReport.user_id data = None \<and> PartialInsertWorkReport.title data = None
      \<and> PartialInsertWorkReport.report_type data = None
      \<and> PartialInsertWorkReport.department data = None
      \<and> PartialInsertWorkReport.tasks data = None \<and> PartialInsertWorkReport.outcomes data = None
      \<and> PartialInsertWorkReport.challenges data = None
      \<and> PartialInsertWorkReport.next_steps data = None
      \<and> PartialInsertWorkReport.status data = None)"

definition SupabaseStorage_updateWorkReport ::
  "Database \<Rightarrow> int \<Rightarrow> PartialInsertWorkReport \<Rightarrow> (error + WorkReport option) \<times> Database" where
  "SupabaseStorage_updateWorkReport db i data =
     (let hit = filter (\<lambda>r. WorkReport.id r = i) (Database.workReports db)
      in if no_keys_WorkReport data then (Inl (Error ''No values to set''), db)
         else if hit \<noteq> [] \<and>
                 (case PartialInsertWorkReport.user_id data of
                    None \<Rightarrow> False
                  | Some u \<Rightarrow> u \<notin> set (map User.id (Database.users db)))
         then (Inl (ForeignKeyViolation ''work_reports_user_id_users_id_fk''), db)
         else (let result = map (\<lambda>r. merge_WorkReport r data) hit
               in (Inr (first_row result),
                   db\<lparr>Database.workReports :=
                        map (\<lambda>r. if WorkReport.id r = i then merge_WorkReport r data else r)
                          (Database.workReports db)\<rparr>)))"

subsection \<open>The connection\<close>

text \<open>
  The query builder is \<open>drizzle\<close> of \<open>drizzle-orm/neon-serverless\<close>, which runs a query
  by the method \<open>query\<close> of the client it was given. A pool of the database driver
  has that method. The constructor of the class gives the query builder the export of
  \<open>supabase.ts\<close>, which is what \<open>createClient\<close> of \<open>@supabase/supabase-js\<close> returns:
  that client has no method \<open>query\<close>, so that awaiting a query built on it rejects with
  a \<open>TypeError\<close> before anything reaches a database. The query builder is identified
  with the client it wraps.
\<close>

datatype client = Pool | SupabaseClient

definition supabase :: client where
  "supabase = SupabaseClient"

definition drizzle :: "client \<Rightarrow> client" where
  "drizzle c = c"

definition SupabaseStorage_new :: client where
  "SupabaseStorage_new = drizzle supabase"

definition await_query ::
  "client \<Rightarrow> Database \<Rightarrow> (error + 'a) \<times> Database \<Rightarrow> (error + 'a) \<times> Database" where
  "await_query connection database outcome =
     (case connection of Pool \<Rightarrow> outcome | SupabaseClient \<Rightarrow> (Inl TypeError, database))"

text \<open>\<open>createUser\<close> of the class as it is constructed.\<close>

definition SupabaseStorage_createUser_awaited ::
  "client \<Rightarrow> Database \<Rightarrow> Date \<Rightarrow> InsertUser \<Rightarrow> (error + User option) \<times> Database" where
  "SupabaseStorage_createUser_awaited this database now user =
     await_query this database (SupabaseStorage_createUser database now user)"

subsection \<open>Stores that hold the same rows\<close>

text \<open>
  A \<open>MemStorage\<close> and a database correspond when every map of the first holds exactly
  the rows of the table of the second, each under its \<open>id\<close>, and the users satisfy
  the \<open>unique\<close> constraints of the table.
\<close>

definition keyed :: "('r \<Rightarrow> int) \<Rightarrow> (int \<times> 'r) list \<Rightarrow> bool" where
  "keyed key m = (distinct (map fst m) \<and> list_all (\<lambda>e. key (snd e) = fst e) m)"

definition same_rows :: "('r \<Rightarrow> int) \<Rightarrow> (int \<times> 'r) list \<Rightarrow> 'r list \<Rightarrow> bool" where
  "same_rows key m rows = (keyed key m \<and> mset (Map_values m) = mset rows)"

definition corresponds :: "MemStorage \<Rightarrow> Database \<Rightarrow> bool" where
  "corresponds mem db =
     (same_rows User.id (MemStorage.users mem) (Database.users db)
      \<and> same_rows Attendance.id (MemStorage.attendance mem) (Database.attendance db)
      \<and> same_rows Sale.id (MemStorage.sales mem) (Database.sales db)
      \<and> same_rows Product.id (MemStorage.products mem) (Database.products db)
      \<and> same_rows WorkReport.id (MemStorage.workReports mem) (Database.workReports db)
      \<and> distinct (map User.username (Database.users db))
      \<and> distinct (map User.email (Database.users db)))"

section \<open>Notions of the specification\<close>

subsection \<open>Well-formed stores\<close>

text \<open>
  In a store that the constructor and the methods of \<open>MemStorage\<close> have built, the keys
  of a map are distinct and every row lies under its own \<open>id\<close>.
\<close>

definition MemStorage_inv :: "MemStorage \<Rightarrow> bool" where
  "MemStorage_inv this =
     (keyed User.id (MemStorage.users this)
      \<and> keyed Attendance.id (MemStorage.attendance this)
      \<and> keyed Sale.id (MemStorage.sales this)
      \<and> keyed Product.id (MemStorage.products this)
      \<and> keyed ProductCategory.id (MemStorage.productCategories this)
      \<and> keyed WorkReport.id (MemStorage.workReports this))"

text \<open>
  A today-record of a user: an attendance row of that user whose \<open>check_in\<close> lies in
  the local day of \<open>now\<close>, from its start up to the start of the next day.
\<close>

definition today_record :: "int \<Rightarrow> Date \<Rightarrow> int \<Rightarrow> Attendance \<Rightarrow> bool" where
  "today_record tz now u r =
     (Attendance.user_id r = u \<and> startOfDay tz now \<le> Attendance.check_in r
      \<and> Attendance.check_in r < startOfDay tz now + msPerDay)"

text \<open>The roles of all users of a store lie in the enum of the column.\<close>

definition roles_ok :: "MemStorage \<Rightarrow> bool" where
  "roles_ok this =
     list_all (\<lambda>user. User.role user \<in> set role_enum) (Map_values (MemStorage.users this))"

subsection \<open>Invoice numbers\<close>

definition is_digit :: "char \<Rightarrow> bool" where
  "is_digit c = (let n = (of_char c :: nat) in 48 \<le> n \<and> n \<le> 57)"

definition is_upper :: "char \<Rightarrow> bool" where
  "is_upper c = (let n = (of_char c :: nat) in 65 \<le> n \<and> n \<le> 90)"

text \<open>The pattern \<open>INV-\d{8}-[A-Z0-9]{6}\<close>, for the whole string.\<close>

definition invoice_pattern :: "string \<Rightarrow> bool" where
  "invoice_pattern s =
     (length s = 19 \<and> take 4 s = ''INV-'' \<and> list_all is_digit (take 8 (drop 4 s))
      \<and> take 1 (drop 12 s) = ''-'' \<and> list_all (\<lambda>c. is_upper c \<or> is_digit c) (drop 13 s))"

text \<open>
  The identifiers of \<open>nanoid\<close> are drawn from its URL alphabet: the letters, the digits,
  the underscore and the hyphen.
\<close>

definition urlAlphabet :: string where
  "urlAlphabet = ''useandom-26T198340PX75pxJACKVERYMINDBUSHWOLF_GQZbfghjklqvwyzrict''"

definition is_nanoid :: "nat \<Rightarrow> string \<Rightarrow> bool" where
  "is_nanoid n s = (length s = n \<and> list_all (\<lambda>c. c \<in> set urlAlphabet) s)"

text \<open>The characters of an identifier in upper case: \<open>[A-Z0-9_-]\<close>.\<close>

definition is_id_char :: "char \<Rightarrow> bool" where
  "is_id_char c = (is_upper c \<or> is_digit c \<or> c = CHR ''_'' \<or> c = CHR ''-'')"

text \<open>A date of the form \<open>YYYY-MM-DD\<close>.\<close>

definition is_date_string :: "string \<Rightarrow> bool" where
  "is_date_string s =
     (length s = 10 \<and> list_all is_digit (take 4 s) \<and> take 1 (drop 4 s) = ''-''
      \<and> list_all is_digit (take 2 (drop 5 s)) \<and> take 1 (drop 7 s) = ''-''
      \<and> list_all is_digit (drop 8 s))"

subsection \<open>Sale amounts\<close>

text \<open>
  The subtotal of a list of items: the sum of unit price times quantity, in the
  arithmetic of numbers, added from the left, and the tax rate, the literal \<open>0.11\<close>.
\<close>

definition sale_subtotal :: "ProductItem list \<Rightarrow> number" where
  "sale_subtotal items =
     foldl num_add (Fin 0)
       (map (\<lambda>item. num_mul (ProductItem.price item) (of_whole (ProductItem.quantity item)))
          items)"

definition tax_rate :: number where
  "tax_rate = round_double (11 / 100)"

subsection \<open>The sales of a day\<close>

text \<open>
  A sale is of the local day of \<open>now\<close> when its \<open>sale_date\<close> falls on the same
  calendar day of the server's local time, that is, within 00:00:00.000 and
  23:59:59.999 of that day. The total of a list of sales is the sum of their
  \<open>total_amount\<close>, in the arithmetic of numbers, added from the left.
\<close>

definition same_local_day :: "int \<Rightarrow> Date \<Rightarrow> Date \<Rightarrow> bool" where
  "same_local_day tz now t = ((t + tz) div 86400000 = (now + tz) div 86400000)"

definition sales_total :: "Sale list \<Rightarrow> number" where
  "sales_total rows = foldl num_add (Fin 0) (map Sale.total_amount rows)"

subsection \<open>Pages\<close>

text \<open>
  The page of the specification, in its words: of the \<open>N\<close> records \<open>xs\<close>, sorted
  by descending \<open>key\<close>, the part \<open>records[(p - 1) * l : min (N, p * l)]\<close>. The second
  line reads the part as a slice, for every page and limit; the third reads it, for a
  page from 1 and a limit from 0, as the elements from index \<open>(p - 1) * l\<close> up to the
  bound.
\<close>

definition page_of :: "('a \<Rightarrow> int) \<Rightarrow> 'a list \<Rightarrow> int \<Rightarrow> int \<Rightarrow> 'a list \<Rightarrow> bool" where
  "page_of key xs p l page =
     (let R = sort_desc key xs; N = length xs
      in mset R = mset xs \<and> sorted_wrt (\<lambda>a b. key b \<le> key a) R
         \<and> page = Array_slice R ((p - 1) * l) (min (int N) (p * l))
         \<and> (1 \<le> p \<and> 0 \<le> l \<longrightarrow>
              page = take (nat (min (int N) (p * l)) - nat ((p - 1) * l))
                          (drop (nat ((p - 1) * l)) R)))"

section \<open>Example stores\<close>

definition attendance_row :: "int \<Rightarrow> int \<Rightarrow> Date \<Rightarrow> Attendance" where
  "attendance_row i u t =
     \<lparr>Attendance.id = i, user_id = u, check_in = t, check_out = None, note = None,
      location = ''Office - Jakarta Headquarters'', created_at = Some t\<rparr>"

definition store_three_days :: MemStorage where
  "store_three_days =
     (MemStorage_new 0)\<lparr>MemStorage.attendance :=
        [(1, attendance_row 1 7 100),
         (2, (attendance_row 2 8 150)\<lparr>Attendance.check_out := Some 900\<rparr>),
         (3, attendance_row 3 7 300), (4, attendance_row 4 7 200)],
      attendanceIdCounter := 5\<rparr>"

definition two_items :: "ProductItem list" where
  "two_items =
     [\<lparr>ProductItem.productId = ''1'', quantity = 2, price = Fin 100\<rparr>,
      \<lparr>ProductItem.productId = ''4'', quantity = 1, price = Fin 50\<rparr>]"

text \<open>Three items of the price \<open>0.1\<close>, the double nearest to one tenth.\<close>

definition tenth_items :: "ProductItem list" where
  "tenth_items =
     [\<lparr>ProductItem.productId = ''1'', quantity = 3,
       price = Fin (3602879701896397 / 36028797018963968)\<rparr>]"

definition parse_date_example :: "string \<Rightarrow> Date option" where
  "parse_date_example s = (if s = ''2024-01-10'' then Some 1704844800000 else None)"

definition some_user :: UserProfile where
  "some_user =
     \<lparr>UserProfile.id = 7, username = ''sari'', role = ''karyawan'', avatar_url = None,
      full_name = Some ''Sari Dewi'', email = ''sari@example.com''\<rparr>"

definition clock_example :: "nat \<Rightarrow> Date" where
  "clock_example k = 1704875700123 + int k"

definition rupiah_example :: "number \<Rightarrow> string" where
  "rupiah_example a = (case a of Fin x \<Rightarrow> ''Rp '' @ show_int \<lfloor>x\<rfloor> | _ \<Rightarrow> ''Rp NaN'')"

definition sale_row :: "int \<Rightarrow> int \<Rightarrow> Date \<Rightarrow> real \<Rightarrow> Sale" where
  "sale_row i u t amount =
     \<lparr>Sale.id = i, invoice_number = ''INV-20240110-V1STGX'', user_id = u,
      customer_name = ''Budi'', sale_date = t, total_amount = Fin amount,
      tax_amount = Fin 0, discount_amount = Fin 0, payment_method = ''cash'', notes = None,
      status = ''completed'', created_at = Some t\<rparr>"

definition report_row :: "int \<Rightarrow> int \<Rightarrow> Date option \<Rightarrow> WorkReport" where
  "report_row i u t =
     \<lparr>WorkReport.id = i, user_id = u, title = ''Weekly report'', report_type = ''weekly'',
      department = ''Sales'', tasks = ''Visits'', outcomes = ''Orders'', challenges = None,
      next_steps = None, status = ''submitted'', created_at = t\<rparr>"

text \<open>
  A store whose sales and work reports were not written in the order of their
  dates; one report has no date.
\<close>

definition store_history :: MemStorage where
  "store_history =
     (MemStorage_new 0)\<lparr>MemStorage.sales :=
        [(1, sale_row 1 7 100 10), (2, sale_row 2 7 300 20), (3, sale_row 3 8 250 30),
         (4, sale_row 4 7 200 40)],
      saleIdCounter := 5,
      MemStorage.workReports :=
        [(1, report_row 1 7 (Some 50)), (2, report_row 2 7 None),
         (3, report_row 3 7 (Some 70)), (4, report_row 4 8 (Some 80)),
         (5, report_row 5 7 (Some 60))],
      reportIdCounter := 6\<rparr>"

text \<open>
  Sales around 10 January 2024 of a server seven hours ahead of UTC: one of the day
  before, one of the first hour of the day, one of its last hours.
\<close>

definition store_one_sale :: MemStorage where
  "store_one_sale =
     (MemStorage_new 0)\<lparr>MemStorage.sales :=
        [(1, sale_row 1 7 1704794400000 999), (2, sale_row 2 7 1704823200000 100),
         (3, sale_row 3 8 1704900000000 (355 / 2))],
      saleIdCounter := 4\<rparr>"

text \<open>
  Sales of 10 January 2024 whose amounts cancel: a refund is a sale of a negative
  amount.
\<close>

definition store_refund :: MemStorage where
  "store_refund =
     (MemStorage_new 0)\<lparr>MemStorage.sales :=
        [(1, sale_row 1 7 1704844800000 10000000000000000),
         (2, sale_row 2 7 1704844800001 1),
         (3, sale_row 3 7 1704844800002 (- 10000000000000000))],
      saleIdCounter := 4\<rparr>"

definition store_refunds :: MemStorage where
  "store_refunds =
     store_refund\<lparr>MemStorage.sales :=
        MemStorage.sales store_refund @ [(4, sale_row 4 7 1704844800003 (- 1))],
      saleIdCounter := 5\<rparr>"

text \<open>Two sales of 10 January 2024 whose totals have overflowed, one of them a refund.\<close>

definition store_overflow :: MemStorage where
  "store_overflow =
     (MemStorage_new 0)\<lparr>MemStorage.sales :=
        [(1, (sale_row 1 7 1704844800000 0)\<lparr>Sale.total_amount := PosInfinity\<rparr>),
         (2, (sale_row 2 7 1704844800001 0)\<lparr>Sale.total_amount := NegInfinity\<rparr>)],
      saleIdCounter := 3\<rparr>"

definition body_karyawan :: UserBody where
  "body_karyawan =
     \<lparr>UserBody.username = Str ''sari'', password = Str ''rahasia'',
      email = Str ''sari@example.com'', role = Str ''karyawan'',
      full_name = Str ''Sari Dewi'', avatar_url = Missing\<rparr>"

definition body_staff :: UserBody where
  "body_staff = body_karyawan\<lparr>UserBody.role := Str ''staff''\<rparr>"

definition user_sari :: User where
  "user_sari =
     \<lparr>User.id = 1, username = ''sari'', password = ''rahasia'', email = ''sari@example.com'',
      role = ''karyawan'', full_name = Some ''Sari Dewi'', avatar_url = None,
      created_at = Some 1704875700123\<rparr>"

definition auth_example :: "string \<Rightarrow> auth_result" where
  "auth_example token =
     (if token = ''token-of-sari'' then AuthUser (Some ''sari@example.com'') else AuthError)"

definition nanoid_example :: "nat \<Rightarrow> string" where
  "nanoid_example k = ''a_b-c1''"

definition parseInt_example :: "string \<Rightarrow> int option" where
  "parseInt_example s = (if s = ''1'' then Some 1 else if s = ''4'' then Some 4 else None)"

definition sale_without_invoice :: InsertSale where
  "sale_without_invoice =
     \<lparr>InsertSale.invoice_number = [], user_id = 7, customer_name = ''Budi'',
      sale_date = 1704844800000, total_amount = Fin (555 / 2), tax_amount = Fin (55 / 2),
      discount_amount = Fin 0, payment_method = ''cash'', notes = None, status = ''completed''\<rparr>"

definition store_sari :: MemStorage where
  "store_sari =
     (MemStorage_new 0)\<lparr>MemStorage.users := [(1, user_sari)], userIdCounter := 2,
        MemStorage.attendance := [(1, attendance_row 1 1 100)], attendanceIdCounter := 2\<rparr>"

definition db_sari :: Database where
  "db_sari =
     \<lparr>Database.users = [user_sari], attendance = [attendance_row 1 1 100], sales = [],
      products = sample_products 0, workReports = [], users_id_seq = 2\<rparr>"

definition second_sari :: InsertUser where
  "second_sari =
     \<lparr>InsertUser.username = ''sari'', password = ''lain'', email = ''sari2@example.com'',
      role = ''karyawan'', full_name = None, avatar_url = None\<rparr>"

definition checkout_at :: "Date \<Rightarrow> PartialInsertAttendance" where
  "checkout_at t =
     \<lparr>PartialInsertAttendance.user_id = None, check_in = None, check_out = Some (Some t),
      note = None, location = None\<rparr>"

definition status_completed :: PartialInsertWorkReport where
  "status_completed =
     \<lparr>PartialInsertWorkReport.user_id = None, title = None, report_type = None,
      department = None, tasks = None, outcomes = None, challenges = None, next_steps = None,
      status = Some ''completed''\<rparr>"

section \<open>Rounding to doubles\<close>

lemma pow2_mono: "a \<le> b \<Longrightarrow> pow2 a \<le> pow2 b"
  by (simp add: pow2_def power_int_increasing)

lemma exponent_from_eq:
  assumes "- 1022 \<le> e" "e \<le> int n - 1022" "pow2 e \<le> a" "a < pow2 (e + 1)"
  shows "exponent_from a n = e"
  using assms
proof (induction n)
  case 0
  then show ?case by simp
next
  case (Suc n)
  show ?case
  proof (cases "e = int n - 1021")
    case True
    with Suc.prems show ?thesis by simp
  next
    case False
    with Suc.prems have le: "e + 1 \<le> int n - 1021" by simp
    have "pow2 (e + 1) \<le> pow2 (int n - 1021)"
      by (rule pow2_mono) (rule le)
    with Suc.prems have "\<not> pow2 (int n - 1021) \<le> a" by simp
    moreover have "exponent_from a n = e"
      using Suc.prems le by (intro Suc.IH) simp_all
    ultimately show ?thesis by simp
  qed
qed

lemma exponent_eq:
  assumes "- 1022 \<le> e" "e \<le> 1023" "pow2 e \<le> \<bar>x\<bar>" "\<bar>x\<bar> < pow2 (e + 1)"
  shows "exponent x = e"
  unfolding exponent_def using assms by (intro exponent_from_eq) simp_all

text \<open>
  The rounding of a value whose exponent \<open>e\<close> and rounded mantissa \<open>m\<close> are known.
\<close>

lemma round_double_eval:
  assumes "- 1022 \<le> e" "e \<le> 1023" "pow2 e \<le> \<bar>x\<bar>" "\<bar>x\<bar> < pow2 (e + 1)"
    and "round_even (x / pow2 (e - 52)) = m"
    and "\<bar>of_int m * pow2 (e - 52)\<bar> < pow2 1024"
  shows "round_double x = Fin (of_int m * pow2 (e - 52))"
proof -
  have "0 < pow2 e"
    by (simp add: pow2_def)
  with assms(3) have "x \<noteq> 0"
    by auto
  moreover have "exponent x = e"
    using assms(1-4) by (rule exponent_eq)
  ultimately show ?thesis
    using assms(5,6) by (simp add: round_double_def Let_def)
qed

lemma round_double_zero: "round_double 0 = Fin 0"
  by (simp add: round_double_def)

lemma round_double_1: "round_double 1 = Fin 1"
  using round_double_eval [of 0 1 4503599627370496]
  by (simp add: pow2_def round_even_def Let_def)

lemma round_double_2: "round_double 2 = Fin 2"
  using round_double_eval [of 1 2 4503599627370496]
  by (simp add: pow2_def round_even_def Let_def)

lemma round_double_3: "round_double 3 = Fin 3"
  using round_double_eval [of 1 3 6755399441055744]
  by (simp add: pow2_def round_even_def Let_def)

lemma round_double_50: "round_double 50 = Fin 50"
  using round_double_eval [of 5 50 7036874417766400]
  by (simp add: pow2_def round_even_def Let_def)

lemma round_double_100: "round_double 100 = Fin 100"
  using round_double_eval [of 6 100 7036874417766400]
  by (simp add: pow2_def round_even_def Let_def)

lemma round_double_200: "round_double 200 = Fin 200"
  using round_double_eval [of 7 200 7036874417766400]
  by (simp add: pow2_def round_even_def Let_def)

lemma round_double_250: "round_double 250 = Fin 250"
  using round_double_eval [of 7 250 8796093022208000]
  by (simp add: pow2_def round_even_def Let_def)

lemma round_double_277: "round_double (555 / 2) = Fin (555 / 2)"
  using round_double_eval [of 8 "555 / 2" 4881831627325440]
  by (simp add: pow2_def round_even_def Let_def)

text \<open>The literal \<open>0.11\<close> is the double \<open>7926335344172073 / 2^56\<close>.\<close>

lemma tax_rate_value: "tax_rate = Fin (7926335344172073 / 72057594037927936)"
  unfolding tax_rate_def
  using round_double_eval [of "- 4" "11 / 100" 7926335344172073]
  by (simp add: pow2_def round_even_def Let_def)

lemma round_double_tax_250:
  "round_double (250 * (7926335344172073 / 72057594037927936)) = Fin (55 / 2)"
  using round_double_eval [of 4 "250 * (7926335344172073 / 72057594037927936)" 7740561859543040]
  by (simp add: pow2_def round_even_def Let_def)

text \<open>
  Three times the double \<open>0.1\<close> is \<open>0.30000000000000004\<close>, its tax is
  \<open>0.03300000000000001\<close>, and their sum is \<open>0.3330000000000001\<close>.
\<close>

lemma round_double_3_tenths:
  "round_double (3602879701896397 / 36028797018963968 * 3)
     = Fin (1351079888211149 / 4503599627370496)"
  using round_double_eval [of "- 2" "3602879701896397 / 36028797018963968 * 3" 5404319552844596]
  by (simp add: pow2_def round_even_def Let_def)

lemma round_double_3_tenths_again:
  "round_double (1351079888211149 / 4503599627370496)
     = Fin (1351079888211149 / 4503599627370496)"
  using round_double_eval [of "- 2" "1351079888211149 / 4503599627370496" 5404319552844596]
  by (simp add: pow2_def round_even_def Let_def)

lemma round_double_tax_3_tenths:
  "round_double (1351079888211149 / 4503599627370496 * (7926335344172073 / 72057594037927936))
     = Fin (4755801206503245 / 144115188075855872)"
  using round_double_eval [of "- 5"
      "1351079888211149 / 4503599627370496 * (7926335344172073 / 72057594037927936)"
      4755801206503245]
  by (simp add: pow2_def round_even_def Let_def)

lemma round_double_total_3_tenths:
  "round_double (1351079888211149 / 4503599627370496 + 4755801206503245 / 144115188075855872)
     = Fin (2999397351828751 / 9007199254740992)"
  using round_double_eval [of "- 2"
      "1351079888211149 / 4503599627370496 + 4755801206503245 / 144115188075855872"
      5998794703657502]
  by (simp add: pow2_def round_even_def Let_def)

lemma round_double_total_3_tenths_again:
  "round_double (2999397351828751 / 9007199254740992) = Fin (2999397351828751 / 9007199254740992)"
  using round_double_eval [of "- 2" "2999397351828751 / 9007199254740992" 5998794703657502]
  by (simp add: pow2_def round_even_def Let_def)

text \<open>Next to \<open>10^16\<close> the doubles are two apart: adding 1 is lost.\<close>

lemma round_double_1e16: "round_double 10000000000000000 = Fin 10000000000000000"
  using round_double_eval [of 53 10000000000000000 5000000000000000]
  by (simp add: pow2_def round_even_def Let_def)

lemma round_double_1e16_plus_1: "round_double (10000000000000000 + 1) = Fin 10000000000000000"
  using round_double_eval [of 53 "10000000000000000 + 1" 5000000000000000]
  by (simp add: pow2_def round_even_def Let_def)

lemma round_double_minus_1: "round_double (- 1) = Fin (- 1)"
  using round_double_eval [of 0 "- 1" "- 4503599627370496"]
  by (simp add: pow2_def round_even_def Let_def)

section \<open>Working hours\<close>

lemma js_rem_nonneg: "0 \<le> a \<Longrightarrow> 0 < b \<Longrightarrow> js_rem a b = a mod b"
  by (simp add: js_rem_def)

lemma show_nat_8: "show_nat 8 = ''8''"
  by code_simp

lemma show_nat_30: "show_nat 30 = ''30''"
  by code_simp

text \<open>
  C5. For a check-in and a check-out that are dates (or strings that the \<open>Date\<close>
  constructor reads as dates) with \<open>checkOut \<ge> checkIn\<close>, the result is
  \<open>H hrs M mins\<close>, where \<open>H\<close> is the difference in milliseconds divided by
  3,600,000 and \<open>M\<close> is the rest of that division divided by 60,000, both rounded
  down; 09:00 and 17:30 of one day give \<open>8 hrs 30 mins\<close>.
\<close>

theorem calculateWorkingHours_format:
  "(\<not> falsy_arg a \<and> \<not> falsy_arg b \<and> getTime parse a = Some checkIn
      \<and> getTime parse b = Some checkOut \<and> checkIn \<le> checkOut \<longrightarrow>
      calculateWorkingHours parse a b =
        show_int ((checkOut - checkIn) div 3600000) @ '' hrs '' @
        show_int (((checkOut - checkIn) mod 3600000) div 60000) @ '' mins'')
   \<and> calculateWorkingHours parse (DateObj (9 * 3600000)) (DateObj (17 * 3600000 + 30 * 60000))
        = ''8 hrs 30 mins''"
proof -
  have general: "calculateWorkingHours parse x y =
        show_int ((t' - t) div 3600000) @ '' hrs '' @
        show_int (((t' - t) mod 3600000) div 60000) @ '' mins''"
    if "\<not> falsy_arg x" "\<not> falsy_arg y" "getTime parse x = Some t" "getTime parse y = Some t'"
      "t \<le> t'" for x y t t'
    using that by (simp add: calculateWorkingHours_def js_rem_nonneg Let_def)
  have "calculateWorkingHours parse (DateObj (9 * 3600000)) (DateObj (17 * 3600000 + 30 * 60000))
        = show_int 8 @ '' hrs '' @ show_int 30 @ '' mins''"
    by (simp add: general)
  then show ?thesis
    using general by (simp add: show_int_def show_nat_8 show_nat_30)
qed

theorem calculateWorkingHours_format_witness:
  "\<not> falsy_arg (DateObj 32400000) \<and> \<not> falsy_arg (DateStr ''2024-01-10T17:30:00'')
   \<and> getTime (\<lambda>s. Some 63000000) (DateObj 32400000) = Some 32400000
   \<and> getTime (\<lambda>s. Some 63000000) (DateStr ''2024-01-10T17:30:00'') = Some 63000000
   \<and> (32400000::int) \<le> 63000000
   \<and> calculateWorkingHours (\<lambda>s. Some 63000000) (DateObj 32400000)
        (DateStr ''2024-01-10T17:30:00'') = ''8 hrs 30 mins''"
  using calculateWorkingHours_format [of "DateObj 32400000" "DateStr ''2024-01-10T17:30:00''"
      "\<lambda>s. Some 63000000" 32400000 63000000]
  by (simp add: show_int_def show_nat_8 show_nat_30)

section \<open>Pagination\<close>

lemma mset_sort_desc: "mset (sort_desc key xs) = mset xs"
  by (simp add: sort_desc_def)

lemma length_sort_desc: "length (sort_desc key xs) = length xs"
  by (simp add: sort_desc_def)

lemma sorted_sort_desc: "sorted_wrt (\<lambda>a b. key b \<le> key a) (sort_desc key xs)"
proof -
  have "sorted (map (\<lambda>x. - key x) (sort_key (\<lambda>x. - key x) xs))"
    by (rule sorted_sort_key)
  then show ?thesis
    by (simp add: sort_desc_def sorted_map)
qed

lemma slice_index_min: "slice_index n (min (int n) e) = slice_index n e"
  by (auto simp: slice_index_def min_def)

lemma Array_slice_clamp: "Array_slice xs s (min (int (length xs)) e) = Array_slice xs s e"
  by (simp add: Array_slice_def slice_index_min)

lemma Array_slice_take_drop:
  assumes "0 \<le> s" "s \<le> e"
  shows "Array_slice xs s e = take (nat (min (int (length xs)) e) - nat s) (drop (nat s) xs)"
proof (cases "nat s \<le> length xs")
  case True
  with assms show ?thesis
    by (simp add: Array_slice_def slice_index_def Let_def min_def nat_le_iff)
next
  case False
  with assms show ?thesis
    by (simp add: Array_slice_def slice_index_def Let_def)
qed

lemma page_end: "(p - 1) * l + l = p * (l::int)"
  by (simp add: algebra_simps)

lemma page_bounds: "1 \<le> p \<Longrightarrow> 0 \<le> l \<Longrightarrow> 0 \<le> (p - 1) * l \<and> (p - 1) * l \<le> p * (l::int)"
  by (simp add: mult_right_mono)

lemma page_of_slice:
  "page_of key xs p l (Array_slice (sort_desc key xs) ((p - 1) * l) ((p - 1) * l + l))"
proof -
  let ?R = "sort_desc key xs"
  have clamp: "Array_slice ?R ((p - 1) * l) ((p - 1) * l + l) =
      Array_slice ?R ((p - 1) * l) (min (int (length xs)) (p * l))"
    using Array_slice_clamp [of ?R "(p - 1) * l" "p * l"]
    by (simp add: page_end length_sort_desc)
  have cut: "Array_slice ?R ((p - 1) * l) ((p - 1) * l + l) =
      take (nat (min (int (length xs)) (p * l)) - nat ((p - 1) * l)) (drop (nat ((p - 1) * l)) ?R)"
    if "1 \<le> p" "0 \<le> l"
    using Array_slice_take_drop [of "(p - 1) * l" "p * l" ?R] page_bounds [OF that]
    by (simp add: page_end length_sort_desc)
  show ?thesis
    unfolding page_of_def Let_def
    using clamp cut by (simp add: mset_sort_desc sorted_sort_desc)
qed


text \<open>
  C2. Each paginated list method of \<open>MemStorage\<close> returns, for every user, page and
  limit, the part \<open>records[(p - 1) * l : min (N, p * l)]\<close> of the user's \<open>N\<close> rows
  sorted by descending timestamp (\<open>check_in\<close> of an attendance row, \<open>created_at\<close> of a
  sale and of a work report, a row without \<open>created_at\<close> counting as of time 0), and
  \<open>N\<close> as the total count.
\<close>

theorem MemStorage_pagination:
  "page_of Attendance.check_in
     (filter (\<lambda>r. Attendance.user_id r = u) (Map_values (MemStorage.attendance this))) p l
     (fst (MemStorage_getAttendanceByUserId this u p l))
   \<and> snd (MemStorage_getAttendanceByUserId this u p l) =
       length (filter (\<lambda>r. Attendance.user_id r = u) (Map_values (MemStorage.attendance this)))
   \<and> page_of (\<lambda>r. case Sale.created_at r of None \<Rightarrow> 0 | Some t \<Rightarrow> t)
     (filter (\<lambda>r. Sale.user_id r = u) (Map_values (MemStorage.sales this))) p l
     (fst (MemStorage_getSalesByUserId this u p l))
   \<and> snd (MemStorage_getSalesByUserId this u p l) =
       length (filter (\<lambda>r. Sale.user_id r = u) (Map_values (MemStorage.sales this)))
   \<and> page_of (\<lambda>r. case WorkReport.created_at r of None \<Rightarrow> 0 | Some t \<Rightarrow> t)
     (filter (\<lambda>r. WorkReport.user_id r = u) (Map_values (MemStorage.workReports this))) p l
     (fst (MemStorage_getWorkReportsByUserId this u p l))
   \<and> snd (MemStorage_getWorkReportsByUserId this u p l) =
       length (filter (\<lambda>r. WorkReport.user_id r = u) (Map_values (MemStorage.workReports this)))"
proof -
  have sale_key: "(\<lambda>r. time_of (Sale.created_at r))
      = (\<lambda>r. case Sale.created_at r of None \<Rightarrow> 0 | Some t \<Rightarrow> t)"
    by (simp add: time_of_def)
  have report_key: "(\<lambda>r. time_of (WorkReport.created_at r))
      = (\<lambda>r. case WorkReport.created_at r of None \<Rightarrow> 0 | Some t \<Rightarrow> t)"
    by (simp add: time_of_def)
  show ?thesis
    unfolding MemStorage_getAttendanceByUserId_def MemStorage_getSalesByUserId_def
      MemStorage_getWorkReportsByUserId_def sale_key report_key
    by (simp add: Let_def page_of_slice length_sort_desc)
qed

lemma store_three_days_sorted:
  "sort_desc Attendance.check_in
     (filter (\<lambda>r. Attendance.user_id r = 7) (Map_values (MemStorage.attendance store_three_days)))
   = [attendance_row 3 7 300, attendance_row 4 7 200, attendance_row 1 7 100]"
  by (simp add: store_three_days_def Map_values_def attendance_row_def sort_desc_def)

lemma store_three_days_count:
  "length (filter (\<lambda>r. Attendance.user_id r = 7)
     (Map_values (MemStorage.attendance store_three_days))) = 3"
  by (simp add: store_three_days_def Map_values_def attendance_row_def)

lemma store_history_sales_sorted:
  "sort_desc (\<lambda>r. case Sale.created_at r of None \<Rightarrow> 0 | Some t \<Rightarrow> t)
     (filter (\<lambda>r. Sale.user_id r = 7) (Map_values (MemStorage.sales store_history)))
   = [sale_row 2 7 300 20, sale_row 4 7 200 40, sale_row 1 7 100 10]"
  by (simp add: store_history_def Map_values_def sale_row_def sort_desc_def)

lemma store_history_sales_count:
  "length (filter (\<lambda>r. Sale.user_id r = 7) (Map_values (MemStorage.sales store_history))) = 3"
  by (simp add: store_history_def Map_values_def sale_row_def)

lemma store_history_reports_sorted:
  "sort_desc (\<lambda>r. case WorkReport.created_at r of None \<Rightarrow> 0 | Some t \<Rightarrow> t)
     (filter (\<lambda>r. WorkReport.user_id r = 7) (Map_values (MemStorage.workReports store_history)))
   = [report_row 3 7 (Some 70), report_row 5 7 (Some 60), report_row 1 7 (Some 50),
      report_row 2 7 None]"
  by (simp add: store_history_def Map_values_def report_row_def sort_desc_def)

lemma store_history_reports_count:
  "length (filter (\<lambda>r. WorkReport.user_id r = 7)
     (Map_values (MemStorage.workReports store_history))) = 4"
  by (simp add: store_history_def Map_values_def report_row_def)

theorem MemStorage_pagination_witness:
  "(1::int) \<le> 2 \<and> (0::int) \<le> 2 \<and>
   MemStorage_getAttendanceByUserId store_three_days 7 2 2 = ([attendance_row 1 7 100], 3)
   \<and> MemStorage_getSalesByUserId store_history 7 1 2
        = ([sale_row 2 7 300 20, sale_row 4 7 200 40], 3)
   \<and> MemStorage_getSalesByUserId store_history 7 2 2 = ([sale_row 1 7 100 10], 3)
   \<and> MemStorage_getWorkReportsByUserId store_history 7 1 3
        = ([report_row 3 7 (Some 70), report_row 5 7 (Some 60), report_row 1 7 (Some 50)], 4)
   \<and> MemStorage_getWorkReportsByUserId store_history 7 2 3 = ([report_row 2 7 None], 4)"
proof -
  note pages = MemStorage_pagination [of 7 store_three_days 2 2]
    MemStorage_pagination [of 7 store_history 1 2] MemStorage_pagination [of 7 store_history 2 2]
    MemStorage_pagination [of 7 store_history 1 3] MemStorage_pagination [of 7 store_history 2 3]
  have "fst (MemStorage_getAttendanceByUserId store_three_days 7 2 2) = [attendance_row 1 7 100]"
    and "snd (MemStorage_getAttendanceByUserId store_three_days 7 2 2) = 3"
    using pages(1)
    by (simp_all add: page_of_def Let_def store_three_days_sorted store_three_days_count
        Array_slice_def slice_index_def)
  moreover have "fst (MemStorage_getSalesByUserId store_history 7 1 2)
        = [sale_row 2 7 300 20, sale_row 4 7 200 40]"
    and "snd (MemStorage_getSalesByUserId store_history 7 1 2) = 3"
    using pages(2)
    by (simp_all add: page_of_def Let_def store_history_sales_sorted store_history_sales_count
        Array_slice_def slice_index_def)
  moreover have "fst (MemStorage_getSalesByUserId store_history 7 2 2) = [sale_row 1 7 100 10]"
    and "snd (MemStorage_getSalesByUserId store_history 7 2 2) = 3"
    using pages(3)
    by (simp_all add: page_of_def Let_def store_history_sales_sorted store_history_sales_count
        Array_slice_def slice_index_def)
  moreover have "fst (MemStorage_getWorkReportsByUserId store_history 7 1 3)
        = [report_row 3 7 (Some 70), report_row 5 7 (Some 60), report_row 1 7 (Some 50)]"
    and "snd (MemStorage_getWorkReportsByUserId store_history 7 1 3) = 4"
    using pages(4)
    by (simp_all add: page_of_def Let_def store_history_reports_sorted
        store_history_reports_count Array_slice_def slice_index_def)
  moreover have "fst (MemStorage_getWorkReportsByUserId store_history 7 2 3)
        = [report_row 2 7 None]"
    and "snd (MemStorage_getWorkReportsByUserId store_history 7 2 3) = 4"
    using pages(5)
    by (simp_all add: page_of_def Let_def store_history_reports_sorted
        store_history_reports_count Array_slice_def slice_index_def)
  ultimately show ?thesis
    by (simp add: prod_eq_iff)
qed

section \<open>Sale totals\<close>

lemma Map_get_set_same: "Map_get (Map_set k v m) k = Some v"
  by (induction m) (simp_all add: Map_get_def)

lemma Map_get_set_other: "k' \<noteq> k \<Longrightarrow> Map_get (Map_set k v m) k' = Map_get m k'"
  by (induction m) (auto simp: Map_get_def)

lemma sales_createSaleItem:
  "MemStorage.sales (snd (MemStorage_createSaleItem this now saleItem)) = MemStorage.sales this"
  by (simp add: MemStorage_createSaleItem_def Let_def)

lemma sales_create_sale_items:
  "MemStorage.sales (snd (create_sale_items parseInt storage clock k saleId items))
     = MemStorage.sales storage"
proof (induction items arbitrary: storage k)
  case Nil
  show ?case by simp
next
  case (Cons item items)
  show ?case
  proof (cases "parseInt (ProductItem.productId item)")
    case None
    then show ?thesis by simp
  next
    case (Some pid)
    then show ?thesis
      using Cons.IH sales_createSaleItem
      by (simp add: Let_def split_beta)
  qed
qed

subsection \<open>Amounts that are not numbers\<close>

lemma round_double_not_NaN: "round_double x \<noteq> NaN"
  by (simp add: round_double_def Let_def)

lemma tax_NaN: "num_mul a tax_rate = NaN \<longleftrightarrow> a = NaN"
  by (cases a) (simp_all add: tax_rate_value round_double_not_NaN)

lemma total_NaN:
  "num_sub (num_add a (num_mul a tax_rate)) (Fin 0) = NaN \<longleftrightarrow> a = NaN"
proof (cases a)
  case (Fin x)
  show ?thesis
  proof (cases "round_double (x * (7926335344172073 / 72057594037927936))")
    case (Fin t)
    with \<open>a = Fin x\<close> show ?thesis
      by (cases "round_double (x + t)")
        (simp_all add: tax_rate_value num_sub_def round_double_not_NaN is_infinite_def)
  next
    case PosInfinity
    with \<open>a = Fin x\<close> show ?thesis
      by (simp add: tax_rate_value num_sub_def is_infinite_def)
  next
    case NegInfinity
    with \<open>a = Fin x\<close> show ?thesis
      by (simp add: tax_rate_value num_sub_def is_infinite_def)
  next
    case NaN
    then show ?thesis
      by (simp add: round_double_not_NaN)
  qed
qed (simp_all add: tax_rate_value num_sub_def is_infinite_def)

lemma subtotal_fold:
  "foldl (\<lambda>sum item. num_add sum (num_mul (ProductItem.price item)
                                    (of_whole (ProductItem.quantity item)))) (Fin 0) items
     = sale_subtotal items"
  by (simp add: sale_subtotal_def foldl_map)

subsection \<open>The sale that is stored\<close>

lemma post_sales_persisted:
  assumes "Date_parse saleDate = Some date" and "sale_subtotal productItems \<noteq> NaN"
  shows "\<exists>sale. Map_get (MemStorage.sales (snd (post_sales Date_parse parseInt storage clock nanoid
                user saleDate customerName productItems paymentMethod ns)))
              (saleIdCounter storage) = Some sale
          \<and> Sale.tax_amount sale = num_mul (sale_subtotal productItems) tax_rate
          \<and> Sale.discount_amount sale = Fin 0
          \<and> Sale.total_amount sale =
              num_sub (num_add (sale_subtotal productItems) (Sale.tax_amount sale))
                (Sale.discount_amount sale)"
proof -
  have tax: "num_mul (sale_subtotal productItems) (round_double (11 / 100)) \<noteq> NaN"
    using assms(2) tax_NaN [of "sale_subtotal productItems"] by (simp add: tax_rate_def)
  have total: "num_sub (num_add (sale_subtotal productItems)
      (num_mul (sale_subtotal productItems) (round_double (11 / 100)))) (Fin 0) \<noteq> NaN"
    using assms(2) total_NaN [of "sale_subtotal productItems"] by (simp add: tax_rate_def)
  show ?thesis
    using assms(1) tax total
    by (simp add: post_sales_def MemStorage_createSale_def Let_def split_beta subtotal_fold
        tax_rate_def sales_create_sale_items Map_get_set_same split: prod.splits option.splits)
qed

lemma post_sales_not_a_number:
  assumes "sale_subtotal productItems = NaN"
  shows "post_sales Date_parse parseInt storage clock nanoid user saleDate customerName
           productItems paymentMethod ns = ((400, ErrorMessage ZodError), storage)"
  using assms
  by (simp add: post_sales_def Let_def subtotal_fold split: option.splits)

lemma sale_subtotal_two_items:
  "sale_subtotal [\<lparr>ProductItem.productId = a, quantity = 2, price = Fin 100\<rparr>,
                  \<lparr>ProductItem.productId = b, quantity = 1, price = Fin 50\<rparr>] = Fin 250"
  by (simp add: sale_subtotal_def of_whole_def round_double_1 round_double_2 round_double_50
      round_double_200 round_double_250)

lemma amounts_two_items:
  "num_mul (Fin 250) tax_rate = Fin (55 / 2)"
  "num_sub (num_add (Fin 250) (Fin (55 / 2))) (Fin 0) = Fin (555 / 2)"
  using round_double_tax_250 round_double_277
  by (simp_all add: tax_rate_value num_sub_def)

lemma sale_subtotal_tenth_items:
  "sale_subtotal tenth_items = Fin (1351079888211149 / 4503599627370496)"
  using round_double_3_tenths round_double_3_tenths_again
  by (simp add: sale_subtotal_def tenth_items_def of_whole_def round_double_3)

lemma amounts_tenth_items:
  "num_mul (Fin (1351079888211149 / 4503599627370496)) tax_rate
     = Fin (4755801206503245 / 144115188075855872)"
  "num_sub (num_add (Fin (1351079888211149 / 4503599627370496))
      (Fin (4755801206503245 / 144115188075855872))) (Fin 0)
     = Fin (2999397351828751 / 9007199254740992)"
  using round_double_tax_3_tenths round_double_total_3_tenths round_double_total_3_tenths_again
  by (simp_all add: tax_rate_value num_sub_def)

text \<open>
  The claim as it is written fails for amounts that doubles do not hold exactly. Of
  three items of the price \<open>0.1\<close> the handler stores the tax \<open>0.03300000000000001\<close>
  and the total \<open>0.3330000000000001\<close>: the tax is not the subtotal times \<open>0.11\<close>,
  whether \<open>0.11\<close> is read as eleven hundredths or as the double of that literal, and
  the total is not the sum of the subtotal and the tax.
\<close>

theorem post_sales_rounding_counterexample:
  "map ProductItem.price tenth_items = [Fin (3602879701896397 / 36028797018963968)]
   \<and> map ProductItem.quantity tenth_items = [3]
   \<and> map_option Sale.tax_amount
        (Map_get (MemStorage.sales (snd (post_sales parse_date_example parseInt_example
           (MemStorage_new 0) clock_example nanoid_example some_user ''2024-01-10'' ''Budi''
           tenth_items ''cash'' None))) 1)
       = Some (Fin (4755801206503245 / 144115188075855872))
   \<and> map_option Sale.total_amount
        (Map_get (MemStorage.sales (snd (post_sales parse_date_example parseInt_example
           (MemStorage_new 0) clock_example nanoid_example some_user ''2024-01-10'' ''Budi''
           tenth_items ''cash'' None))) 1)
       = Some (Fin (2999397351828751 / 9007199254740992))
   \<and> 3602879701896397 / 36028797018963968 * 3 * (11 / 100)
        \<noteq> (4755801206503245 / 144115188075855872 :: real)
   \<and> 3602879701896397 / 36028797018963968 * 3 * (7926335344172073 / 72057594037927936)
        \<noteq> (4755801206503245 / 144115188075855872 :: real)
   \<and> 3602879701896397 / 36028797018963968 * 3 + 4755801206503245 / 144115188075855872 - 0
        \<noteq> (2999397351828751 / 9007199254740992 :: real)"
proof -
  have parsed: "parse_date_example ''2024-01-10'' = Some 1704844800000"
    by (simp add: parse_date_example_def)
  have counter: "saleIdCounter (MemStorage_new 0) = 1"
    by (simp add: MemStorage_new_def)
  have number: "sale_subtotal tenth_items \<noteq> NaN"
    by (simp add: sale_subtotal_tenth_items)
  obtain sale where sale:
    "Map_get (MemStorage.sales (snd (post_sales parse_date_example parseInt_example
        (MemStorage_new 0) clock_example nanoid_example some_user ''2024-01-10'' ''Budi''
        tenth_items ''cash'' None))) (saleIdCounter (MemStorage_new 0)) = Some sale"
    "Sale.tax_amount sale = num_mul (sale_subtotal tenth_items) tax_rate"
    "Sale.discount_amount sale = Fin 0"
    "Sale.total_amount sale =
       num_sub (num_add (sale_subtotal tenth_items) (Sale.tax_amount sale))
         (Sale.discount_amount sale)"
    using post_sales_persisted [of parse_date_example "''2024-01-10''" 1704844800000
        tenth_items parseInt_example "MemStorage_new 0" clock_example nanoid_example some_user
        "''Budi''" "''cash''" None] parsed number
    by blast
  have tax: "Sale.tax_amount sale = Fin (4755801206503245 / 144115188075855872)"
    unfolding sale(2) sale_subtotal_tenth_items by (rule amounts_tenth_items(1))
  have "Sale.total_amount sale = Fin (2999397351828751 / 9007199254740992)"
    unfolding sale(4) sale(3) tax sale_subtotal_tenth_items by (rule amounts_tenth_items(2))
  with tax sale(1) show ?thesis
    by (simp add: counter tenth_items_def)
qed

text \<open>
  C3. When \<open>POST /api/sales\<close> persists a sale (the sale date is a date and the
  subtotal is not \<open>NaN\<close>), the sale that it stores has, in the arithmetic of doubles
  with every product and sum rounded to the nearest double, \<open>tax_amount\<close> the
  subtotal times the double \<open>0.11\<close>, \<open>discount_amount = 0\<close> and \<open>total_amount\<close> the
  subtotal plus the tax minus the discount, where the subtotal is the sum, from the
  left, of price times quantity over the items. With a subtotal that is \<open>NaN\<close> no sale
  is stored. The items of price 100, quantity 2 and price 50, quantity 1 have the
  subtotal 250, the tax 27.5 and the total 277.5, without rounding.
\<close>

theorem post_sales_amounts:
  assumes "Date_parse saleDate = Some date"
  shows "(sale_subtotal productItems \<noteq> NaN \<longrightarrow>
          (\<exists>sale. Map_get (MemStorage.sales (snd (post_sales Date_parse parseInt storage clock
                nanoid user saleDate customerName productItems paymentMethod ns)))
              (saleIdCounter storage) = Some sale
          \<and> Sale.tax_amount sale = num_mul (sale_subtotal productItems) tax_rate
          \<and> Sale.discount_amount sale = Fin 0
          \<and> Sale.total_amount sale =
              num_sub (num_add (sale_subtotal productItems) (Sale.tax_amount sale))
                (Sale.discount_amount sale)))
       \<and> (sale_subtotal productItems = NaN \<longrightarrow>
            post_sales Date_parse parseInt storage clock nanoid user saleDate customerName
              productItems paymentMethod ns = ((400, ErrorMessage ZodError), storage))
       \<and> tax_rate = Fin (7926335344172073 / 72057594037927936)
       \<and> sale_subtotal [\<lparr>ProductItem.productId = a, quantity = 2, price = Fin 100\<rparr>,
                         \<lparr>ProductItem.productId = b, quantity = 1, price = Fin 50\<rparr>] = Fin 250
       \<and> (\<exists>sale. Map_get (MemStorage.sales (snd (post_sales Date_parse parseInt storage clock nanoid
                user saleDate customerName
                [\<lparr>ProductItem.productId = a, quantity = 2, price = Fin 100\<rparr>,
                 \<lparr>ProductItem.productId = b, quantity = 1, price = Fin 50\<rparr>] paymentMethod ns)))
              (saleIdCounter storage) = Some sale
          \<and> Sale.tax_amount sale = Fin (55 / 2) \<and> Sale.discount_amount sale = Fin 0
          \<and> Sale.total_amount sale = Fin (555 / 2))"
proof -
  let ?items = "[\<lparr>ProductItem.productId = a, quantity = 2, price = Fin 100\<rparr>,
                 \<lparr>ProductItem.productId = b, quantity = 1, price = Fin 50\<rparr>]"
  have "sale_subtotal ?items \<noteq> NaN"
    by (simp add: sale_subtotal_two_items)
  then obtain sale where sale:
    "Map_get (MemStorage.sales (snd (post_sales Date_parse parseInt storage clock nanoid
        user saleDate customerName ?items paymentMethod ns))) (saleIdCounter storage) = Some sale"
    "Sale.tax_amount sale = num_mul (sale_subtotal ?items) tax_rate"
    "Sale.discount_amount sale = Fin 0"
    "Sale.total_amount sale = num_sub (num_add (sale_subtotal ?items) (Sale.tax_amount sale))
               (Sale.discount_amount sale)"
    using assms post_sales_persisted [of Date_parse saleDate date ?items parseInt storage clock
        nanoid user customerName paymentMethod ns]
    by blast
  have tax: "Sale.tax_amount sale = Fin (55 / 2)"
    unfolding sale(2) sale_subtotal_two_items by (rule amounts_two_items(1))
  have "Sale.total_amount sale = Fin (555 / 2)"
    unfolding sale(4) sale(3) tax sale_subtotal_two_items by (rule amounts_two_items(2))
  with tax sale(1,3) have example: "\<exists>sale. Map_get (MemStorage.sales (snd (post_sales Date_parse
        parseInt storage clock nanoid user saleDate customerName ?items paymentMethod ns)))
        (saleIdCounter storage) = Some sale
      \<and> Sale.tax_amount sale = Fin (55 / 2) \<and> Sale.discount_amount sale = Fin 0
      \<and> Sale.total_amount sale = Fin (555 / 2)"
    by blast
  show ?thesis
    using assms example
      post_sales_persisted [of Date_parse saleDate date productItems parseInt storage clock
        nanoid user customerName paymentMethod ns]
      post_sales_not_a_number [of productItems Date_parse parseInt storage clock nanoid user
        saleDate customerName paymentMethod ns]
    by (simp add: sale_subtotal_two_items tax_rate_value)
qed

text \<open>An item without a price: its price is \<open>NaN\<close>.\<close>

lemma sale_subtotal_no_price:
  "sale_subtotal [\<lparr>ProductItem.productId = ''1'', quantity = 2, price = NaN\<rparr>] = NaN"
  by (simp add: sale_subtotal_def of_whole_def round_double_2)

theorem post_sales_amounts_witness:
  "parse_date_example ''2024-01-10'' = Some 1704844800000
   \<and> sale_subtotal two_items \<noteq> NaN
   \<and> (\<exists>sale. Map_get (MemStorage.sales (snd (post_sales parse_date_example parseInt_example
          (MemStorage_new 0) clock_example nanoid_example some_user ''2024-01-10''
          ''Budi'' two_items ''cash'' None))) 1 = Some sale
        \<and> Sale.tax_amount sale = Fin (55 / 2) \<and> Sale.total_amount sale = Fin (555 / 2))
   \<and> sale_subtotal [\<lparr>ProductItem.productId = ''1'', quantity = 2, price = NaN\<rparr>] = NaN
   \<and> post_sales parse_date_example parseInt_example (MemStorage_new 0) clock_example
        nanoid_example some_user ''2024-01-10'' ''Budi''
        [\<lparr>ProductItem.productId = ''1'', quantity = 2, price = NaN\<rparr>] ''cash'' None
       = ((400, ErrorMessage ZodError), MemStorage_new 0)"
proof -
  have parsed: "parse_date_example ''2024-01-10'' = Some 1704844800000"
    by (simp add: parse_date_example_def)
  have counter: "saleIdCounter (MemStorage_new 0) = 1"
    by (simp add: MemStorage_new_def)
  have number: "sale_subtotal two_items \<noteq> NaN"
    by (simp add: two_items_def sale_subtotal_two_items)
  note inst = post_sales_amounts [of parse_date_example "''2024-01-10''" 1704844800000
      _ parseInt_example "MemStorage_new 0" clock_example nanoid_example some_user
      "''Budi''" "''cash''" None, OF parsed]
  have "\<exists>sale. Map_get (MemStorage.sales (snd (post_sales parse_date_example parseInt_example
          (MemStorage_new 0) clock_example nanoid_example some_user ''2024-01-10''
          ''Budi'' two_items ''cash'' None))) (saleIdCounter (MemStorage_new 0)) = Some sale
        \<and> Sale.tax_amount sale = Fin (55 / 2) \<and> Sale.discount_amount sale = Fin 0
        \<and> Sale.total_amount sale = Fin (555 / 2)"
    unfolding two_items_def
    using inst [of two_items "''1''" "''4''"] by blast
  moreover have "post_sales parse_date_example parseInt_example (MemStorage_new 0) clock_example
        nanoid_example some_user ''2024-01-10'' ''Budi''
        [\<lparr>ProductItem.productId = ''1'', quantity = 2, price = NaN\<rparr>] ''cash'' None
       = ((400, ErrorMessage ZodError), MemStorage_new 0)"
    using inst [of "[\<lparr>ProductItem.productId = ''1'', quantity = 2, price = NaN\<rparr>]" "''1''" "''4''"]
      sale_subtotal_no_price by blast
  ultimately show ?thesis
    using parsed number sale_subtotal_no_price
    unfolding counter by blast
qed

section \<open>Maps and well-formed stores\<close>

lemma keys_Map_set: "fst ` set (Map_set k v m) = insert k (fst ` set m)"
  by (induction m) auto

lemma map_fst_Map_set_present:
  "k \<in> set (map fst m) \<Longrightarrow> map fst (Map_set k v m) = map fst m"
  by (induction m) auto

lemma distinct_Map_set: "distinct (map fst m) \<Longrightarrow> distinct (map fst (Map_set k v m))"
  by (induction m) (auto simp: keys_Map_set)

lemma set_Map_set_subset: "set (Map_set k v m) \<subseteq> insert (k, v) (set m)"
  by (induction m) auto

lemma keyed_Map_set:
  assumes "keyed key m" "key v = k"
  shows "keyed key (Map_set k v m)"
proof -
  have "list_all (\<lambda>e. key (snd e) = fst e) (Map_set k v m)"
    using assms set_Map_set_subset [of k v m]
    by (auto simp: keyed_def list_all_iff)
  with assms show ?thesis
    by (simp add: keyed_def distinct_Map_set)
qed

lemma keyed_Map_get:
  assumes "keyed key m" "r \<in> set (Map_values m)"
  shows "Map_get m (key r) = Some r"
proof -
  from assms(2) obtain k where in_m: "(k, r) \<in> set m"
    by (auto simp: Map_values_def)
  with assms(1) have "key r = k"
    by (auto simp: keyed_def list_all_iff)
  with assms(1) in_m show ?thesis
    by (simp add: keyed_def Map_get_def)
qed

lemma Map_get_keys: "Map_get m k = Some v \<Longrightarrow> k \<in> set (map fst m)"
  by (auto simp: Map_get_def dest: map_of_SomeD intro: rev_image_eqI)

lemma MemStorage_inv_new: "MemStorage_inv (MemStorage_new now)"
  by (simp add: MemStorage_inv_def MemStorage_new_def keyed_def sample_products_def
      sample_categories_def sample_product_def)

lemma MemStorage_inv_createUser:
  "MemStorage_inv this \<Longrightarrow> MemStorage_inv (snd (MemStorage_createUser this now u))"
  by (simp add: MemStorage_inv_def MemStorage_createUser_def Let_def keyed_Map_set)

lemma MemStorage_inv_createAttendance:
  "MemStorage_inv this \<Longrightarrow> MemStorage_inv (snd (MemStorage_createAttendance this now a))"
  by (simp add: MemStorage_inv_def MemStorage_createAttendance_def Let_def keyed_Map_set)

lemma MemStorage_inv_createSale:
  "MemStorage_inv this \<Longrightarrow> MemStorage_inv (snd (MemStorage_createSale this now rid a))"
  by (simp add: MemStorage_inv_def MemStorage_createSale_def Let_def keyed_Map_set)

lemma MemStorage_inv_createSaleItem:
  "MemStorage_inv this \<Longrightarrow> MemStorage_inv (snd (MemStorage_createSaleItem this now a))"
  by (simp add: MemStorage_inv_def MemStorage_createSaleItem_def Let_def)

lemma MemStorage_inv_createWorkReport:
  "MemStorage_inv this \<Longrightarrow> MemStorage_inv (snd (MemStorage_createWorkReport this now a))"
  by (simp add: MemStorage_inv_def MemStorage_createWorkReport_def Let_def keyed_Map_set)

lemma id_merge_Attendance: "Attendance.id (merge_Attendance r data) = Attendance.id r"
  by (simp add: merge_Attendance_def)

lemma id_merge_WorkReport: "WorkReport.id (merge_WorkReport r data) = WorkReport.id r"
  by (simp add: merge_WorkReport_def)

lemma keyed_Map_get_key: "keyed key m \<Longrightarrow> Map_get m k = Some r \<Longrightarrow> key r = k"
  by (auto simp: keyed_def list_all_iff Map_get_def dest: map_of_SomeD)

lemma MemStorage_inv_updateAttendance:
  assumes "MemStorage_inv this"
  shows "MemStorage_inv (snd (MemStorage_updateAttendance this i data))"
proof (cases "Map_get (MemStorage.attendance this) i")
  case None
  with assms show ?thesis
    by (simp add: MemStorage_updateAttendance_def)
next
  case (Some r)
  with assms have "Attendance.id (merge_Attendance r data) = i"
    using keyed_Map_get_key [of Attendance.id "MemStorage.attendance this" i r]
    by (simp add: MemStorage_inv_def id_merge_Attendance)
  with assms Some show ?thesis
    by (simp add: MemStorage_updateAttendance_def MemStorage_inv_def Let_def keyed_Map_set)
qed

lemma MemStorage_inv_updateWorkReport:
  assumes "MemStorage_inv this"
  shows "MemStorage_inv (snd (MemStorage_updateWorkReport this i data))"
proof (cases "Map_get (MemStorage.workReports this) i")
  case None
  with assms show ?thesis
    by (simp add: MemStorage_updateWorkReport_def)
next
  case (Some r)
  with assms have "WorkReport.id (merge_WorkReport r data) = i"
    using keyed_Map_get_key [of WorkReport.id "MemStorage.workReports this" i r]
    by (simp add: MemStorage_inv_def id_merge_WorkReport)
  with assms Some show ?thesis
    by (simp add: MemStorage_updateWorkReport_def MemStorage_inv_def Let_def keyed_Map_set)
qed

section \<open>Attendance\<close>


lemma getToday_Some:
  assumes "MemStorage_getTodayAttendanceByUserId tz this now u = Some r"
  shows "r \<in> set (Map_values (MemStorage.attendance this)) \<and> today_record tz now u r"
  using assms
  by (auto simp: MemStorage_getTodayAttendanceByUserId_def Let_def find_Some_iff
      today_record_def nextDay_def)





lemma checkout_accepted:
  assumes inv: "MemStorage_inv storage"
    and found: "MemStorage_getTodayAttendanceByUserId tz storage (clock 0) (UserProfile.id user)
                  = Some r"
    and "open": "Attendance.check_out r = None"
  shows "post_attendance tz Date_parse storage clock user ''checkout'' n =
       ((200, CheckOut (Attendance.id r) (formatTime tz (Some (clock 1)))
                (workingHours Date_parse (Attendance.check_in r) (Some (clock 1)))
                ''Check-out successful''),
        storage\<lparr>MemStorage.attendance :=
          Map_set (Attendance.id r)
            (r\<lparr>Attendance.check_out := Some (clock 1),
               Attendance.note := checkout_note (Attendance.note r) n\<rparr>)
            (MemStorage.attendance storage)\<rparr>)"
proof -
  have "Map_get (MemStorage.attendance storage) (Attendance.id r) = Some r"
    using inv getToday_Some [OF found]
    by (intro keyed_Map_get) (simp_all add: MemStorage_inv_def)
  then show ?thesis
    using found "open"
    by (simp add: post_attendance_def Let_def MemStorage_updateAttendance_def
        merge_Attendance_def spread_def)
qed






lemma store_three_days_inv: "MemStorage_inv store_three_days"
  using MemStorage_inv_new [of 0]
  by (simp add: MemStorage_inv_def store_three_days_def keyed_def attendance_row_def)

lemma store_three_days_today_7:
  "MemStorage_getTodayAttendanceByUserId 0 store_three_days 250 7 = Some (attendance_row 1 7 100)"
  by (simp add: MemStorage_getTodayAttendanceByUserId_def store_three_days_def Map_values_def
      attendance_row_def startOfDay_def nextDay_def msPerDay_def)




text \<open>
  C10. A successful check-out (status 200) changes, in a well-formed store, only the
  \<open>check_out\<close> and the \<open>note\<close> of the user's today-record: its \<open>id\<close>, \<open>user_id\<close>,
  \<open>check_in\<close>, \<open>location\<close> and \<open>created_at\<close>, every other attendance record, the
  order of the records, and every other part of the store stay as they were.
\<close>

theorem checkout_frame:
  assumes "MemStorage_inv storage"
    and "post_attendance tz Date_parse storage clock user attendanceType n = ((200, b), storage')"
  shows "\<exists>r r'.
      MemStorage_getTodayAttendanceByUserId tz storage (clock 0) (UserProfile.id user) = Some r
      \<and> Map_get (MemStorage.attendance storage) (Attendance.id r) = Some r
      \<and> Map_get (MemStorage.attendance storage') (Attendance.id r) = Some r'
      \<and> Attendance.id r' = Attendance.id r
      \<and> Attendance.user_id r' = Attendance.user_id r
      \<and> Attendance.check_in r' = Attendance.check_in r
      \<and> Attendance.location r' = Attendance.location r
      \<and> Attendance.created_at r' = Attendance.created_at r
      \<and> (\<forall>k. k \<noteq> Attendance.id r \<longrightarrow>
            Map_get (MemStorage.attendance storage') k = Map_get (MemStorage.attendance storage) k)
      \<and> map fst (MemStorage.attendance storage') = map fst (MemStorage.attendance storage)
      \<and> storage' = storage\<lparr>MemStorage.attendance := MemStorage.attendance storage'\<rparr>"
proof -
  from assms(2) have type: "attendanceType = ''checkout''"
    by (auto simp: post_attendance_def Let_def split_beta split: if_splits option.splits)
  from assms(2) obtain r where
    found: "MemStorage_getTodayAttendanceByUserId tz storage (clock 0) (UserProfile.id user) = Some r"
    unfolding type
    by (cases "MemStorage_getTodayAttendanceByUserId tz storage (clock 0) (UserProfile.id user)")
      (auto simp: post_attendance_def Let_def)
  from assms(2) found have "open": "Attendance.check_out r = None"
    unfolding type by (auto simp: post_attendance_def Let_def split: if_splits)
  have stored: "Map_get (MemStorage.attendance storage) (Attendance.id r) = Some r"
    using assms(1) getToday_Some [OF found]
    by (intro keyed_Map_get) (simp_all add: MemStorage_inv_def)
  let ?r' = "r\<lparr>Attendance.check_out := Some (clock 1),
               Attendance.note := checkout_note (Attendance.note r) n\<rparr>"
  have after: "storage' = storage\<lparr>MemStorage.attendance :=
      Map_set (Attendance.id r) ?r' (MemStorage.attendance storage)\<rparr>"
    using checkout_accepted [of storage tz clock user r Date_parse n] assms found "open"
    unfolding type by simp
  have "Map_get (MemStorage.attendance storage') (Attendance.id r) = Some ?r'"
    by (simp add: after Map_get_set_same)
  moreover have "\<forall>k. k \<noteq> Attendance.id r \<longrightarrow>
      Map_get (MemStorage.attendance storage') k = Map_get (MemStorage.attendance storage) k"
    by (simp add: after Map_get_set_other)
  moreover have "map fst (MemStorage.attendance storage') = map fst (MemStorage.attendance storage)"
    using Map_get_keys [OF stored] by (simp add: after map_fst_Map_set_present)
  moreover have "storage' = storage\<lparr>MemStorage.attendance := MemStorage.attendance storage'\<rparr>"
    by (simp add: after)
  ultimately show ?thesis
    using found stored by auto
qed


theorem checkout_frame_witness:
  "MemStorage_inv store_three_days
   \<and> (\<exists>b storage'.
        post_attendance 0 parse_date_example store_three_days (\<lambda>k. 250) some_user
          ''checkout'' (Some ''done'') = ((200, b), storage')
        \<and> (\<exists>r'. Map_get (MemStorage.attendance storage') 1 = Some r'
              \<and> Attendance.check_in r' = 100 \<and> Attendance.user_id r' = 7)
        \<and> Map_get (MemStorage.attendance storage') 2
             = Map_get (MemStorage.attendance store_three_days) 2
        \<and> map fst (MemStorage.attendance storage') = [1, 2, 3, 4])"
proof -
  have id7: "UserProfile.id some_user = 7"
    by (simp add: some_user_def)
  have "open": "Attendance.check_out (attendance_row 1 7 100) = None"
    by (simp add: attendance_row_def)
  obtain b storage' where run:
    "post_attendance 0 parse_date_example store_three_days (\<lambda>k. 250) some_user
          ''checkout'' (Some ''done'') = ((200, b), storage')"
    using checkout_accepted [of store_three_days 0 "\<lambda>k. 250" some_user "attendance_row 1 7 100"
        parse_date_example "Some ''done''"] store_three_days_inv store_three_days_today_7 "open"
    by (simp add: id7)
  obtain r r' where frame:
    "MemStorage_getTodayAttendanceByUserId 0 store_three_days 250 (UserProfile.id some_user) = Some r"
    "Map_get (MemStorage.attendance storage') (Attendance.id r) = Some r'"
    "Attendance.user_id r' = Attendance.user_id r"
    "Attendance.check_in r' = Attendance.check_in r"
    "\<forall>k. k \<noteq> Attendance.id r \<longrightarrow> Map_get (MemStorage.attendance storage') k
         = Map_get (MemStorage.attendance store_three_days) k"
    "map fst (MemStorage.attendance storage') = map fst (MemStorage.attendance store_three_days)"
    using checkout_frame [OF store_three_days_inv run] by auto
  from frame(1) have r: "r = attendance_row 1 7 100"
    by (simp add: id7 store_three_days_today_7)
  have "Map_get (MemStorage.attendance storage') 1 = Some r'"
    "Attendance.check_in r' = 100" "Attendance.user_id r' = 7"
    "Map_get (MemStorage.attendance storage') 2 = Map_get (MemStorage.attendance store_three_days) 2"
    "map fst (MemStorage.attendance storage') = [1, 2, 3, 4]"
    using frame(2-6) unfolding r
    by (simp_all add: attendance_row_def store_three_days_def)
  with run store_three_days_inv show ?thesis
    by (intro conjI exI [of _ b] exI [of _ storage'] exI [of _ r']) assumption+
qed

section \<open>Dashboard\<close>

lemma div_window:
  fixes a q :: int
  shows "a div 86400000 = q \<longleftrightarrow> 86400000 * q \<le> a \<and> a < 86400000 * q + 86400000"
proof
  assume "a div 86400000 = q"
  then have "a = 86400000 * q + a mod 86400000"
    by (metis mult_div_mod_eq)
  moreover have "0 \<le> a mod 86400000" "a mod 86400000 < 86400000"
    by simp_all
  ultimately show "86400000 * q \<le> a \<and> a < 86400000 * q + 86400000"
    by linarith
next
  assume b: "86400000 * q \<le> a \<and> a < 86400000 * q + 86400000"
  have "a = 86400000 * (a div 86400000) + a mod 86400000"
    by simp
  moreover have "0 \<le> a mod 86400000" "a mod 86400000 < 86400000"
    by simp_all
  ultimately show "a div 86400000 = q"
    using b by linarith
qed

text \<open>
  The sales that \<open>getDailySalesByDate\<close> keeps, from the start of the local day to its
  last millisecond, are the sales of that calendar day.
\<close>

lemma same_local_day_window:
  "same_local_day tz now t \<longleftrightarrow> startOfDay tz now \<le> t \<and> t \<le> endOfDay tz now"
proof -
  have "now + tz = 86400000 * ((now + tz) div 86400000) + (now + tz) mod 86400000"
    by simp
  then have start: "startOfDay tz now = 86400000 * ((now + tz) div 86400000) - tz"
    unfolding startOfDay_def msPerDay_def by linarith
  show ?thesis
    unfolding same_local_day_def div_window [of "t + tz" "(now + tz) div 86400000"]
      endOfDay_def start msPerDay_def
    by linarith
qed

lemma getDailySalesByDate_total:
  "MemStorage_getDailySalesByDate tz this date =
     (sales_total (filter (\<lambda>sale. same_local_day tz date (Sale.sale_date sale))
                     (Map_values (MemStorage.sales this))),
      length (filter (\<lambda>sale. same_local_day tz date (Sale.sale_date sale))
                     (Map_values (MemStorage.sales this))))"
  by (simp add: MemStorage_getDailySalesByDate_def Let_def same_local_day_window sales_total_def
      foldl_map)

lemma get_dashboard_stats_total:
  "get_dashboard_stats tz fmt storage clock user =
     ((200, Stats (fmt (if sales_total (filter (\<lambda>sale. same_local_day tz (clock 0)
                                                  (Sale.sale_date sale))
                                          (Map_values (MemStorage.sales storage))) = Fin 0
                         \<or> sales_total (filter (\<lambda>sale. same_local_day tz (clock 0)
                                                  (Sale.sale_date sale))
                                          (Map_values (MemStorage.sales storage))) = NaN
                      then Fin 45750000
                      else sales_total (filter (\<lambda>sale. same_local_day tz (clock 0)
                                                  (Sale.sale_date sale))
                                          (Map_values (MemStorage.sales storage)))))
              ''97.8%'' ''85.2%'' ''42/50''), storage)"
  by (simp add: get_dashboard_stats_def getDailySalesByDate_total Let_def falsy_number_def)

subsection \<open>Example days\<close>

lemma today_store_refund:
  "filter (\<lambda>sale. same_local_day 0 (clock_example 0) (Sale.sale_date sale))
      (Map_values (MemStorage.sales store_refund))
     = [sale_row 1 7 1704844800000 10000000000000000, sale_row 2 7 1704844800001 1,
        sale_row 3 7 1704844800002 (- 10000000000000000)]"
  by (simp add: store_refund_def Map_values_def sale_row_def clock_example_def
      same_local_day_def)

lemma today_store_refunds:
  "filter (\<lambda>sale. same_local_day 0 (clock_example 0) (Sale.sale_date sale))
      (Map_values (MemStorage.sales store_refunds))
     = [sale_row 1 7 1704844800000 10000000000000000, sale_row 2 7 1704844800001 1,
        sale_row 3 7 1704844800002 (- 10000000000000000), sale_row 4 7 1704844800003 (- 1)]"
  by (simp add: store_refunds_def store_refund_def Map_values_def sale_row_def clock_example_def
      same_local_day_def)

lemma total_store_refund:
  "sales_total [sale_row 1 7 1704844800000 10000000000000000, sale_row 2 7 1704844800001 1,
        sale_row 3 7 1704844800002 (- 10000000000000000)] = Fin 0"
  using round_double_1e16 round_double_1e16_plus_1
  by (simp add: sales_total_def sale_row_def round_double_zero)

lemma total_store_refunds:
  "sales_total [sale_row 1 7 1704844800000 10000000000000000, sale_row 2 7 1704844800001 1,
        sale_row 3 7 1704844800002 (- 10000000000000000), sale_row 4 7 1704844800003 (- 1)]
     = Fin (- 1)"
  using round_double_1e16 round_double_1e16_plus_1 round_double_minus_1
  by (simp add: sales_total_def sale_row_def round_double_zero)

lemma today_store_one_sale:
  "filter (\<lambda>sale. same_local_day 25200000 (clock_example 0) (Sale.sale_date sale))
      (Map_values (MemStorage.sales store_one_sale))
     = [sale_row 2 7 1704823200000 100, sale_row 3 8 1704900000000 (355 / 2)]"
  by (simp add: store_one_sale_def Map_values_def sale_row_def clock_example_def
      same_local_day_def)

lemma total_store_one_sale:
  "sales_total [sale_row 2 7 1704823200000 100, sale_row 3 8 1704900000000 (355 / 2)]
     = Fin (555 / 2)"
  using round_double_100 round_double_277
  by (simp add: sales_total_def sale_row_def)

lemma today_store_overflow:
  "sales_total (filter (\<lambda>sale. same_local_day 0 (clock_example 0) (Sale.sale_date sale))
      (Map_values (MemStorage.sales store_overflow))) = NaN"
  by (simp add: store_overflow_def Map_values_def sale_row_def clock_example_def
      same_local_day_def sales_total_def is_infinite_def)

lemma show_int_minus_1: "show_int (- 1) = ''-1''"
  by code_simp

lemma show_int_constant: "show_int 45750000 \<noteq> ''-1''"
proof
  assume "show_int 45750000 = ''-1''"
  then have "last (show_nat 45750000) = last ''-1''"
    by (simp add: show_int_def)
  moreover have "show_nat 45750000 = show_nat 4575000 @ [digit_char 0]"
    by (subst show_nat.simps) simp
  moreover have "digit_char 0 = CHR ''0''"
    by code_simp
  ultimately show False
    by simp
qed

lemma floor_minus_1: "\<lfloor>- 1 :: real\<rfloor> = - 1"
  using floor_of_int [of "- 1", where ?'a = real] by simp

lemma rupiah_minus_1: "rupiah_example (Fin (- 1)) = ''Rp -1''"
  by (simp add: rupiah_example_def show_int_minus_1 floor_minus_1)

lemma rupiah_not_minus_1: "rupiah_example (Fin 45750000) \<noteq> ''Rp -1''"
  by (simp add: rupiah_example_def show_int_constant)

text \<open>
  The claim as it is written fails where the sum of doubles is not the sum of the
  amounts. Next to \<open>10^16\<close> the doubles are two apart. Of the four sales of the first
  store the amounts add up to 0, but the handler, adding from the left, arrives at
  \<open>-1\<close> and formats it; of the three sales of the second store the amounts add up to
  1, but the handler arrives at 0 and formats the constant.
\<close>

theorem dashboard_rounding_counterexample:
  "map Sale.total_amount
      (filter (\<lambda>sale. same_local_day 0 (clock_example 0) (Sale.sale_date sale))
         (Map_values (MemStorage.sales store_refunds)))
     = [Fin 10000000000000000, Fin 1, Fin (- 10000000000000000), Fin (- 1)]
   \<and> 10000000000000000 + 1 + (- 10000000000000000) + (- 1) = (0::real)
   \<and> get_dashboard_stats 0 rupiah_example store_refunds clock_example some_user =
        ((200, Stats ''Rp -1'' ''97.8%'' ''85.2%'' ''42/50''), store_refunds)
   \<and> rupiah_example (Fin 45750000) \<noteq> ''Rp -1''
   \<and> map Sale.total_amount
      (filter (\<lambda>sale. same_local_day 0 (clock_example 0) (Sale.sale_date sale))
         (Map_values (MemStorage.sales store_refund)))
     = [Fin 10000000000000000, Fin 1, Fin (- 10000000000000000)]
   \<and> 10000000000000000 + 1 + (- 10000000000000000) = (1::real)
   \<and> get_dashboard_stats 0 rupiah_example store_refund clock_example some_user =
        ((200, Stats (rupiah_example (Fin 45750000)) ''97.8%'' ''85.2%'' ''42/50''),
         store_refund)"
proof -
  have "get_dashboard_stats 0 rupiah_example store_refunds clock_example some_user =
        ((200, Stats ''Rp -1'' ''97.8%'' ''85.2%'' ''42/50''), store_refunds)"
    unfolding get_dashboard_stats_total today_store_refunds total_store_refunds
    by (simp add: rupiah_minus_1)
  moreover have "get_dashboard_stats 0 rupiah_example store_refund clock_example some_user =
        ((200, Stats (rupiah_example (Fin 45750000)) ''97.8%'' ''85.2%'' ''42/50''),
         store_refund)"
    unfolding get_dashboard_stats_total today_store_refund total_store_refund
    by simp
  ultimately show ?thesis
    using rupiah_not_minus_1
    by (simp add: today_store_refund today_store_refunds sale_row_def)
qed

text \<open>
  C9. \<open>GET /api/dashboard/stats\<close> adds the \<open>total_amount\<close> of the sales of today (the
  sales whose \<open>sale_date\<close> is of the local calendar day of the request) as doubles,
  from the left in the order of the store. It formats that total when it is neither 0
  nor \<open>NaN\<close>, and the constant 45,750,000 when it is 0, as it is when there is no sale
  today, or \<open>NaN\<close>; the store stays as it is.
\<close>

theorem dashboard_totalSales:
  "(let today = filter (\<lambda>sale. same_local_day tz (clock 0) (Sale.sale_date sale))
                  (Map_values (MemStorage.sales storage));
        total = sales_total today
    in (total = Fin 0 \<or> total = NaN \<longrightarrow>
          get_dashboard_stats tz fmt storage clock user =
            ((200, Stats (fmt (Fin 45750000)) ''97.8%'' ''85.2%'' ''42/50''), storage))
     \<and> (total \<noteq> Fin 0 \<and> total \<noteq> NaN \<longrightarrow>
          get_dashboard_stats tz fmt storage clock user =
            ((200, Stats (fmt total) ''97.8%'' ''85.2%'' ''42/50''), storage))
     \<and> (today = [] \<longrightarrow>
          get_dashboard_stats tz fmt storage clock user =
            ((200, Stats (fmt (Fin 45750000)) ''97.8%'' ''85.2%'' ''42/50''), storage)))"
  unfolding get_dashboard_stats_total Let_def
  by (auto simp: sales_total_def)

theorem dashboard_totalSales_witness:
  "filter (\<lambda>sale. same_local_day 25200000 (clock_example 0) (Sale.sale_date sale))
      (Map_values (MemStorage.sales (MemStorage_new 0))) = []
   \<and> get_dashboard_stats 25200000 rupiah_example (MemStorage_new 0) clock_example some_user =
        ((200, Stats (rupiah_example (Fin 45750000)) ''97.8%'' ''85.2%'' ''42/50''),
         MemStorage_new 0)
   \<and> sales_total (filter (\<lambda>sale. same_local_day 25200000 (clock_example 0) (Sale.sale_date sale))
        (Map_values (MemStorage.sales store_one_sale))) = Fin (555 / 2)
   \<and> get_dashboard_stats 25200000 rupiah_example store_one_sale clock_example some_user =
        ((200, Stats (rupiah_example (Fin (555 / 2))) ''97.8%'' ''85.2%'' ''42/50''),
         store_one_sale)
   \<and> sales_total (filter (\<lambda>sale. same_local_day 0 (clock_example 0) (Sale.sale_date sale))
        (Map_values (MemStorage.sales store_refund))) = Fin 0
   \<and> get_dashboard_stats 0 rupiah_example store_refund clock_example some_user =
        ((200, Stats (rupiah_example (Fin 45750000)) ''97.8%'' ''85.2%'' ''42/50''),
         store_refund)
   \<and> sales_total (filter (\<lambda>sale. same_local_day 0 (clock_example 0) (Sale.sale_date sale))
        (Map_values (MemStorage.sales store_overflow))) = NaN
   \<and> get_dashboard_stats 0 rupiah_example store_overflow clock_example some_user =
        ((200, Stats (rupiah_example (Fin 45750000)) ''97.8%'' ''85.2%'' ''42/50''),
         store_overflow)"
proof -
  have none: "filter (\<lambda>sale. same_local_day 25200000 (clock_example 0) (Sale.sale_date sale))
      (Map_values (MemStorage.sales (MemStorage_new 0))) = []"
    by (simp add: MemStorage_new_def Map_values_def)
  have one: "sales_total (filter (\<lambda>sale. same_local_day 25200000 (clock_example 0)
        (Sale.sale_date sale)) (Map_values (MemStorage.sales store_one_sale))) = Fin (555 / 2)"
    by (simp add: today_store_one_sale total_store_one_sale)
  have zero: "sales_total (filter (\<lambda>sale. same_local_day 0 (clock_example 0)
        (Sale.sale_date sale)) (Map_values (MemStorage.sales store_refund))) = Fin 0"
    by (simp add: today_store_refund total_store_refund)
  show ?thesis
    using dashboard_totalSales [of 25200000 clock_example "MemStorage_new 0" rupiah_example
        some_user]
      dashboard_totalSales [of 25200000 clock_example store_one_sale rupiah_example some_user]
      dashboard_totalSales [of 0 clock_example store_refund rupiah_example some_user]
      dashboard_totalSales [of 0 clock_example store_overflow rupiah_example some_user]
    by (simp add: Let_def none one zero today_store_overflow)
qed

section \<open>Roles\<close>

lemma set_Map_values_Map_set:
  "set (Map_values (Map_set k v m)) \<subseteq> insert v (set (Map_values m))"
  using set_Map_set_subset [of k v m] by (auto simp: Map_values_def)

lemma roles_ok_createUser:
  assumes "roles_ok this" "InsertUser.role u \<in> set role_enum"
  shows "roles_ok (snd (MemStorage_createUser this now u))"
proof -
  let ?user = "fst (MemStorage_createUser this now u)"
  have users: "MemStorage.users (snd (MemStorage_createUser this now u))
      = Map_set (userIdCounter this) ?user (MemStorage.users this)"
    by (simp add: MemStorage_createUser_def Let_def)
  have role: "User.role ?user \<in> set role_enum"
    using assms(2) by (simp add: MemStorage_createUser_def Let_def)
  have "set (Map_values (Map_set (userIdCounter this) ?user (MemStorage.users this)))
      \<subseteq> insert ?user (set (Map_values (MemStorage.users this)))"
    by (rule set_Map_values_Map_set)
  with assms(1) role show ?thesis
    unfolding roles_ok_def list_all_iff users by blast
qed

lemma insertUserSchema_role:
  "insertUserSchema_parse b = Inr u \<Longrightarrow> InsertUser.role u \<in> set role_enum"
  by (auto simp: insertUserSchema_parse_def split: option.splits if_splits)

lemma roles_ok_post_users:
  assumes "roles_ok storage"
  shows "roles_ok (snd (post_users storage clock b))"
proof (cases "insertUserSchema_parse b")
  case (Inl e)
  with assms show ?thesis by (simp add: post_users_def)
next
  case (Inr u)
  show ?thesis
  proof (cases "MemStorage_getUserByEmail storage (InsertUser.email u)")
    case None
    with Inr show ?thesis
      using roles_ok_createUser [OF assms insertUserSchema_role [OF Inr], of "clock 0"]
      by (simp add: post_users_def split_beta)
  next
    case (Some existing)
    with Inr assms show ?thesis by (simp add: post_users_def)
  qed
qed

lemma getUserByEmail_in_store:
  "MemStorage_getUserByEmail this e = Some user \<Longrightarrow> user \<in> set (Map_values (MemStorage.users this))"
  by (auto simp: MemStorage_getUserByEmail_def find_Some_iff)

lemma validateSession_role:
  assumes "roles_ok storage" "validateSession auth_getUser storage authHeader = Inr (Some profile)"
  shows "UserProfile.role profile \<in> set role_enum"
proof -
  from assms(2) obtain user e where
    "MemStorage_getUserByEmail storage e = Some user" "UserProfile.role profile = User.role user"
    by (auto simp: validateSession_def Let_def split: option.splits if_splits auth_result.splits)
  with assms(1) show ?thesis
    using getUserByEmail_in_store [of storage e user]
    by (auto simp: roles_ok_def list_all_iff)
qed

lemma roles_ok_new: "roles_ok (MemStorage_new now)"
  by (simp add: roles_ok_def MemStorage_new_def Map_values_def)

text \<open>
  C8, as the code has it. The roles are \<open>admin\<close> and \<open>karyawan\<close>: the store of the
  constructor has no user; \<open>POST /api/users\<close>, and \<open>createUser\<close> on an \<open>InsertUser\<close>
  whose role is of its type, keep every role of the store in these two; and a profile
  that the session validation produces from such a store carries one of them.
\<close>

theorem roles_admin_or_karyawan:
  "set role_enum = {''admin'', ''karyawan''}
   \<and> roles_ok (MemStorage_new now)
   \<and> (roles_ok storage \<longrightarrow> roles_ok (snd (post_users storage clock b)))
   \<and> (roles_ok storage \<and> InsertUser.role u \<in> set role_enum \<longrightarrow>
        roles_ok (snd (MemStorage_createUser storage now u)))
   \<and> (roles_ok storage \<and> validateSession auth_getUser storage authHeader = Inr (Some profile) \<longrightarrow>
        UserProfile.role profile = ''admin'' \<or> UserProfile.role profile = ''karyawan'')"
proof -
  have enum: "set role_enum = {''admin'', ''karyawan''}"
    by (simp add: role_enum_def)
  show ?thesis
    using roles_ok_new roles_ok_post_users roles_ok_createUser
      validateSession_role [of storage auth_getUser authHeader profile]
    unfolding enum by blast
qed

lemma post_users_karyawan:
  "post_users (MemStorage_new 0) clock_example body_karyawan =
     ((201, UserJson user_sari),
      (MemStorage_new 0)\<lparr>userIdCounter := 2, MemStorage.users := [(1, user_sari)]\<rparr>)"
  by (simp add: post_users_def insertUserSchema_parse_def body_karyawan_def role_enum_def
      MemStorage_getUserByEmail_def MemStorage_createUser_def MemStorage_new_def Map_values_def
      user_sari_def clock_example_def Let_def)

text \<open>
  The claim as it is written fails: a user with the role \<open>karyawan\<close>, which is neither
  \<open>admin\<close> nor \<open>staff\<close>, is accepted and stored, and the role \<open>staff\<close> is refused.
\<close>

theorem role_staff_counterexample:
  "post_users (MemStorage_new 0) clock_example body_karyawan =
     ((201, UserJson user_sari),
      (MemStorage_new 0)\<lparr>userIdCounter := 2, MemStorage.users := [(1, user_sari)]\<rparr>)
   \<and> MemStorage_getUser
        ((MemStorage_new 0)\<lparr>userIdCounter := 2, MemStorage.users := [(1, user_sari)]\<rparr>) 1
        = Some user_sari
   \<and> User.role user_sari \<noteq> ''admin'' \<and> User.role user_sari \<noteq> ''staff''
   \<and> post_users (MemStorage_new 0) clock_example body_staff =
        ((400, ErrorMessage ZodError), MemStorage_new 0)"
proof -
  have "MemStorage_getUser
        ((MemStorage_new 0)\<lparr>userIdCounter := 2, MemStorage.users := [(1, user_sari)]\<rparr>) 1
        = Some user_sari"
    by (simp add: MemStorage_getUser_def Map_get_def)
  moreover have "User.role user_sari \<noteq> ''admin''" "User.role user_sari \<noteq> ''staff''"
    by (simp_all add: user_sari_def)
  moreover have "post_users (MemStorage_new 0) clock_example body_staff =
        ((400, ErrorMessage ZodError), MemStorage_new 0)"
    by (simp add: post_users_def insertUserSchema_parse_def body_staff_def body_karyawan_def
        role_enum_def)
  ultimately show ?thesis
    using post_users_karyawan by simp
qed

theorem roles_admin_or_karyawan_witness:
  "roles_ok (snd (post_users (MemStorage_new 0) clock_example body_karyawan))
   \<and> validateSession auth_example (snd (post_users (MemStorage_new 0) clock_example body_karyawan))
        (Some ''Bearer token-of-sari'')
       = Inr (Some \<lparr>UserProfile.id = 1, username = ''sari'', role = ''karyawan'',
                    avatar_url = None, full_name = Some ''Sari Dewi'',
                    email = ''sari@example.com''\<rparr>)
   \<and> InsertUser.role \<lparr>InsertUser.username = ''adi'', password = ''x'', email = ''adi@example.com'',
        role = ''admin'', full_name = None, avatar_url = None\<rparr> \<in> set role_enum
   \<and> roles_ok (snd (MemStorage_createUser
        (snd (post_users (MemStorage_new 0) clock_example body_karyawan)) 0
        \<lparr>InsertUser.username = ''adi'', password = ''x'', email = ''adi@example.com'',
         role = ''admin'', full_name = None, avatar_url = None\<rparr>))"
proof -
  let ?st = "snd (post_users (MemStorage_new 0) clock_example body_karyawan)"
  let ?adi = "\<lparr>InsertUser.username = ''adi'', password = ''x'', email = ''adi@example.com'',
        role = ''admin'', full_name = None, avatar_url = None\<rparr>"
  note inst = roles_admin_or_karyawan [of 0 "MemStorage_new 0" clock_example body_karyawan]
  have ok: "roles_ok ?st"
    using inst by blast
  have adi: "InsertUser.role ?adi \<in> set role_enum"
    by (simp add: role_enum_def)
  have session: "validateSession auth_example ?st (Some ''Bearer token-of-sari'')
       = Inr (Some \<lparr>UserProfile.id = 1, username = ''sari'', role = ''karyawan'',
                    avatar_url = None, full_name = Some ''Sari Dewi'',
                    email = ''sari@example.com''\<rparr>)"
    by (simp add: post_users_karyawan validateSession_def startsWith_def auth_example_def
        MemStorage_getUserByEmail_def Map_values_def user_sari_def)
  have "roles_ok (snd (MemStorage_createUser ?st 0 ?adi))"
    using roles_admin_or_karyawan [of 0 ?st clock_example body_karyawan ?adi] ok adi
    by blast
  with ok adi session show ?thesis
    by blast
qed

section \<open>Invoice numbers\<close>

subsection \<open>Digits\<close>

lemma is_digit_digit_char: "d < 10 \<Longrightarrow> is_digit (digit_char d)"
  by (simp add: is_digit_def digit_char_def Let_def)

lemma digits_show_nat: "list_all is_digit (show_nat n)"
proof (induction n rule: show_nat.induct)
  case (1 n)
  show ?case
  proof (cases "n < 10")
    case True
    then show ?thesis
      by (subst show_nat.simps) (simp add: is_digit_digit_char)
  next
    case False
    with 1 show ?thesis
      by (subst show_nat.simps) (simp add: is_digit_digit_char)
  qed
qed

lemma length_show_nat: "0 < k \<Longrightarrow> n < 10 ^ k \<Longrightarrow> length (show_nat n) \<le> k"
proof (induction n arbitrary: k rule: show_nat.induct)
  case (1 n)
  show ?case
  proof (cases "n < 10")
    case True
    with 1(2) show ?thesis
      by (subst show_nat.simps) simp
  next
    case False
    with 1(3) have "1 < k"
      by (cases "k = 1") (use 1(2) in auto)
    then obtain j where k: "k = Suc j" "0 < j"
      by (cases k) auto
    with 1(3) have "n div 10 < 10 ^ j"
      by (simp add: less_mult_imp_div_less mult.commute)
    with 1(1) [OF False k(2)] have "length (show_nat (n div 10)) \<le> j" .
    with False k show ?thesis
      by (subst show_nat.simps) simp
  qed
qed

lemma length_padStart: "length s \<le> w \<Longrightarrow> length (padStart w s) = w"
  by (simp add: padStart_def)

lemma digits_padStart: "list_all is_digit s \<Longrightarrow> list_all is_digit (padStart w s)"
  by (auto simp: padStart_def is_digit_def Let_def list_all_iff)

lemma two_digits:
  "n < 100 \<Longrightarrow> length (padStart 2 (show_nat n)) = 2 \<and> list_all is_digit (padStart 2 (show_nat n))"
  using length_show_nat [of 2 n] by (simp add: length_padStart digits_padStart digits_show_nat)

lemma four_digits:
  "n < 10000 \<Longrightarrow> length (padStart 4 (show_nat n)) = 4 \<and> list_all is_digit (padStart 4 (show_nat n))"
  using length_show_nat [of 4 n] by (simp add: length_padStart digits_padStart digits_show_nat)

lemma remove_hyphens_digits: "list_all is_digit s \<Longrightarrow> remove_hyphens s = s"
  by (induction s) (auto simp: remove_hyphens_def is_digit_def Let_def)

lemma remove_hyphens_append: "remove_hyphens (a @ b) = remove_hyphens a @ remove_hyphens b"
  by (simp add: remove_hyphens_def)

lemma remove_hyphens_hyphen: "remove_hyphens (CHR ''-'' # s) = remove_hyphens s"
  by (simp add: remove_hyphens_def)

subsection \<open>The calendar\<close>

lemma DayFromYear_step:
  "DayFromYear y < DayFromYear (y + 1) \<and> DayFromYear (y + 1) \<le> DayFromYear y + 367"
proof -
  have "(y - 1969) div 4 \<le> (y + 1 - 1969) div 4" "(y - 1901) div 100 \<le> (y + 1 - 1901) div 100"
    "(y - 1601) div 400 \<le> (y + 1 - 1601) div 400"
    by (rule zdiv_mono1; simp)+
  moreover have "(y + 1 - 1969) div 4 \<le> (y - 1969) div 4 + 1"
    "(y + 1 - 1901) div 100 \<le> (y - 1901) div 100 + 1"
    "(y + 1 - 1601) div 400 \<le> (y - 1601) div 400 + 1"
    by linarith+
  moreover have "365 * (y - 1970) + a1 - b1 + c1 < 365 * (y + 1 - 1970) + a2 - b2 + c2
      \<and> 365 * (y + 1 - 1970) + a2 - b2 + c2 \<le> 365 * (y - 1970) + a1 - b1 + c1 + 367"
    if "a1 \<le> a2" "b1 \<le> b2" "c1 \<le> c2" "a2 \<le> a1 + 1" "b2 \<le> b1 + 1" "c2 \<le> c1 + 1"
    for a1 a2 b1 b2 c1 c2 :: int
    using that by (simp add: algebra_simps)
  ultimately show ?thesis
    unfolding DayFromYear_def by blast
qed

lemma DayFromYear_mono: "y \<le> y' \<Longrightarrow> DayFromYear y \<le> DayFromYear y'"
proof (induction y' rule: int_ge_induct)
  case base
  show ?case by simp
next
  case (step i)
  then show ?case
    using DayFromYear_step [of i] by simp
qed

lemma year_search_exit: "day < DayFromYear (year_search day y + 1)"
proof (induction day y rule: year_search.induct)
  case (1 day y)
  then show ?case
    by (subst year_search.simps) simp
qed

lemma year_search_ge: "y \<le> year_search day y"
proof (induction day y rule: year_search.induct)
  case (1 day y)
  then show ?case
    by (subst year_search.simps) (auto simp: not_le)
qed

lemma year_search_reached: "year_search day y = y \<or> DayFromYear (year_search day y) \<le> day"
proof (induction day y rule: year_search.induct)
  case (1 day y)
  show ?case
  proof (cases "DayFromYear (y + 1) \<le> day")
    case True
    with 1 have "year_search day (y + 1) = y + 1 \<or> DayFromYear (year_search day (y + 1)) \<le> day"
      by simp
    with True show ?thesis
      by (subst (1 2) year_search.simps) auto
  next
    case False
    then show ?thesis
      by (subst year_search.simps) simp
  qed
qed

lemma DayWithinYear_upper: "DayWithinYear t \<le> 366"
proof -
  have "Day t < DayFromYear (YearFromTime t + 1)"
    unfolding YearFromTime_def Let_def by (rule year_search_exit)
  then show ?thesis
    using DayFromYear_step [of "YearFromTime t"] by (simp add: DayWithinYear_def)
qed

lemma InLeapYear_cases: "InLeapYear t = 0 \<or> InLeapYear t = 1"
  by (simp add: InLeapYear_def)

lemma MonthFromTime_range: "0 \<le> MonthFromTime t \<and> MonthFromTime t \<le> 11"
  by (simp add: MonthFromTime_def Let_def)

lemma DateFromTime_upper: "DateFromTime t \<le> 33"
  using DayWithinYear_upper [of t] InLeapYear_cases [of t]
  unfolding DateFromTime_def MonthFromTime_def Let_def
  by (auto split: if_splits)


lemma YearFromTime_range:
  assumes "- 62167219200000 \<le> t" "t < 253402300800000"
  shows "0 \<le> YearFromTime t \<and> YearFromTime t \<le> 9999"
proof -
  let ?day = "Day t"
  let ?y0 = "1970 + (if 0 \<le> ?day then ?day div 366 else ?day div 365)"
  have day: "DayFromYear 0 \<le> ?day" "?day < DayFromYear 10000"
    using assms by (simp_all add: Day_def msPerDay_def DayFromYear_def)
  have Y: "YearFromTime t = year_search ?day ?y0"
    by (simp add: YearFromTime_def Let_def)
  have lower: "0 \<le> YearFromTime t"
  proof (rule ccontr)
    assume "\<not> 0 \<le> YearFromTime t"
    then have "DayFromYear (YearFromTime t + 1) \<le> DayFromYear 0"
      by (intro DayFromYear_mono) simp
    with day(1) year_search_exit [of ?day ?y0] show False
      by (simp add: Y)
  qed
  have start: "?y0 \<le> 9999"
    using day(2) by (simp add: DayFromYear_def) linarith
  have upper: "YearFromTime t \<le> 9999"
  proof (rule ccontr)
    assume high: "\<not> YearFromTime t \<le> 9999"
    with start have "year_search ?day ?y0 \<noteq> ?y0"
      unfolding Y by linarith
    with year_search_reached [of ?day ?y0] have "DayFromYear (YearFromTime t) \<le> ?day"
      by (simp add: Y)
    moreover from high have "DayFromYear 10000 \<le> DayFromYear (YearFromTime t)"
      by (intro DayFromYear_mono) simp
    ultimately show False
      using day(2) by simp
  qed
  from lower upper show ?thesis ..
qed

lemma Array_slice_prefix: "Array_slice xs 0 (int n) = take n xs"
  by (simp add: Array_slice_def slice_index_def Let_def min_def)

lemma is_digit_not_hyphen: "list_all is_digit s \<Longrightarrow> CHR ''-'' \<notin> set s"
  by (auto simp: list_all_iff is_digit_def Let_def)

lemma iso_date_digits:
  assumes "0 \<le> YearFromTime t" "YearFromTime t \<le> 9999"
  shows "length (remove_hyphens (Array_slice (toISOString t) 0 10)) = 8
       \<and> list_all is_digit (remove_hyphens (Array_slice (toISOString t) 0 10))
       \<and> remove_hyphens (Array_slice (toISOString t) 0 10) =
           padStart 4 (show_nat (nat (YearFromTime t)))
           @ padStart 2 (show_nat (nat (MonthFromTime t + 1)))
           @ padStart 2 (show_nat (nat (DateFromTime t)))"
proof -
  let ?y = "padStart 4 (show_nat (nat (YearFromTime t)))"
  let ?m = "padStart 2 (show_nat (nat (MonthFromTime t + 1)))"
  let ?d = "padStart 2 (show_nat (nat (DateFromTime t)))"
  have "nat (YearFromTime t) < 10000"
    using assms by linarith
  then have y: "length ?y = 4" "list_all is_digit ?y"
    using four_digits [of "nat (YearFromTime t)"] by simp_all
  have "nat (MonthFromTime t + 1) < 100"
    using MonthFromTime_range [of t] by linarith
  then have m: "length ?m = 2" "list_all is_digit ?m"
    using two_digits [of "nat (MonthFromTime t + 1)"] by simp_all
  have "nat (DateFromTime t) < 100"
    using DateFromTime_upper [of t] by linarith
  then have d: "length ?d = 2" "list_all is_digit ?d"
    using two_digits [of "nat (DateFromTime t)"] by simp_all
  obtain rest where iso: "toISOString t = (?y @ ''-'' @ ?m @ ''-'' @ ?d) @ rest"
    using assms by (simp add: toISOString_def Let_def iso_year_def)
  have "Array_slice (toISOString t) 0 10 = ?y @ ''-'' @ ?m @ ''-'' @ ?d"
    using Array_slice_prefix [of "toISOString t" 10] y(1) m(1) d(1)
    unfolding iso by simp
  then have "remove_hyphens (Array_slice (toISOString t) 0 10) = ?y @ ?m @ ?d"
    using y(2) m(2) d(2)
    by (simp add: remove_hyphens_append remove_hyphens_digits remove_hyphens_hyphen)
  with y m d show ?thesis
    by simp
qed

subsection \<open>Identifiers\<close>

lemma urlAlphabet_upper: "list_all (\<lambda>c. is_id_char (upper_char c)) urlAlphabet"
  by (simp add: urlAlphabet_def is_id_char_def upper_char_def is_upper_def is_digit_def Let_def)

lemma nanoid_upper:
  assumes "is_nanoid n rid"
  shows "length (toUpperCase rid) = n \<and> list_all is_id_char (toUpperCase rid)"
  using assms urlAlphabet_upper
  by (auto simp: is_nanoid_def toUpperCase_def list_all_iff)


lemma date_string_digits:
  assumes "is_date_string s"
  shows "length (remove_hyphens s) = 8 \<and> list_all is_digit (remove_hyphens s)"
proof -
  let ?y = "take 4 s" and ?m = "take 2 (drop 5 s)" and ?d = "drop 8 s"
  have "s = ?y @ drop 4 s" "drop 4 s = take 1 (drop 4 s) @ drop 5 s"
    "drop 5 s = ?m @ drop 7 s" "drop 7 s = take 1 (drop 7 s) @ ?d"
    using append_take_drop_id [of 1 "drop 4 s"] append_take_drop_id [of 2 "drop 5 s"]
      append_take_drop_id [of 1 "drop 7 s"]
    by simp_all
  with assms have "s = ?y @ ''-'' @ ?m @ ''-'' @ ?d"
    by (metis is_date_string_def)
  then have "remove_hyphens s = remove_hyphens (?y @ ''-'' @ ?m @ ''-'' @ ?d)"
    by simp
  also have "\<dots> = ?y @ ?m @ ?d"
    using assms
    by (simp add: is_date_string_def remove_hyphens_append remove_hyphens_digits
        remove_hyphens_hyphen)
  finally show ?thesis
    using assms by (simp add: is_date_string_def)
qed

lemma createSale_generated:
  assumes "is_nanoid 6 rid" "- 62167219200000 \<le> now" "now < 253402300800000"
    "InsertSale.invoice_number saleData = []"
  shows "\<exists>d x. Sale.invoice_number (fst (MemStorage_createSale this now rid saleData))
            = ''INV-'' @ d @ ''-'' @ x
          \<and> length d = 8 \<and> list_all is_digit d \<and> length x = 6 \<and> list_all is_id_char x
          \<and> d = padStart 4 (show_nat (nat (YearFromTime now)))
                @ padStart 2 (show_nat (nat (MonthFromTime now + 1)))
                @ padStart 2 (show_nat (nat (DateFromTime now)))
          \<and> x = toUpperCase rid"
proof -
  have "Sale.invoice_number (fst (MemStorage_createSale this now rid saleData))
      = ''INV-'' @ remove_hyphens (Array_slice (toISOString now) 0 10) @ ''-'' @ toUpperCase rid"
    using assms(4) by (simp add: MemStorage_createSale_def Let_def)
  moreover have "length (remove_hyphens (Array_slice (toISOString now) 0 10)) = 8"
    "list_all is_digit (remove_hyphens (Array_slice (toISOString now) 0 10))"
    "remove_hyphens (Array_slice (toISOString now) 0 10) =
       padStart 4 (show_nat (nat (YearFromTime now)))
       @ padStart 2 (show_nat (nat (MonthFromTime now + 1)))
       @ padStart 2 (show_nat (nat (DateFromTime now)))"
    using iso_date_digits [of now] YearFromTime_range [OF assms(2,3)] by blast+
  moreover have "length (toUpperCase rid) = 6" "list_all is_id_char (toUpperCase rid)"
    using nanoid_upper [OF assms(1)] by simp_all
  ultimately show ?thesis
    by (intro exI [of _ "remove_hyphens (Array_slice (toISOString now) 0 10)"]
        exI [of _ "toUpperCase rid"]) simp
qed

lemma post_sales_invoice:
  assumes "is_nanoid 6 (nanoid 0)" "Date_parse saleDate = Some date"
    "sale_subtotal productItems \<noteq> NaN"
  shows "\<exists>sale x. Map_get (MemStorage.sales (snd (post_sales Date_parse parseInt storage clock nanoid
                user saleDate customerName productItems paymentMethod ns)))
              (saleIdCounter storage) = Some sale
          \<and> Sale.invoice_number sale = ''INV-'' @ remove_hyphens saleDate @ ''-'' @ x
          \<and> length x = 6 \<and> list_all is_id_char x"
proof -
  have "\<exists>sale. Map_get (MemStorage.sales (snd (post_sales Date_parse parseInt storage clock nanoid
                user saleDate customerName productItems paymentMethod ns)))
              (saleIdCounter storage) = Some sale
          \<and> Sale.invoice_number sale
              = ''INV-'' @ remove_hyphens saleDate @ ''-'' @ toUpperCase (nanoid 0)"
  proof -
    have "num_mul (sale_subtotal productItems) (round_double (11 / 100)) \<noteq> NaN"
      using assms(3) tax_NaN [of "sale_subtotal productItems"] by (simp add: tax_rate_def)
    moreover have "num_sub (num_add (sale_subtotal productItems)
        (num_mul (sale_subtotal productItems) (round_double (11 / 100)))) (Fin 0) \<noteq> NaN"
      using assms(3) total_NaN [of "sale_subtotal productItems"] by (simp add: tax_rate_def)
    ultimately show ?thesis
      using assms(2)
      by (simp add: post_sales_def MemStorage_createSale_def Let_def split_beta subtotal_fold
          sales_create_sale_items Map_get_set_same split: prod.splits option.splits)
  qed
  then show ?thesis
    using nanoid_upper [OF assms(1)] by blast
qed

text \<open>
  C6, as the code has it. An invoice number that \<open>createSale\<close> generates (the invoice
  number of the data is empty), at a time from the year 0000 through the year 9999, is
  \<open>INV-\<close>, eight digits, a hyphen, and six characters of \<open>[A-Z0-9_-]\<close>: the digits are
  the year, the month and the day of the UTC date of that time, and the characters are
  the identifier in upper case; an invoice number that is given is kept. The one of
  the sale that \<open>POST /api/sales\<close> stores is \<open>INV-\<close>, the sale date of the request
  without its hyphens, a hyphen, and six such characters (with a subtotal that is
  \<open>NaN\<close> the handler stores no sale); the date part has eight digits when the sale
  date has the form \<open>YYYY-MM-DD\<close>.
\<close>

theorem invoice_number_format:
  "(is_nanoid 6 rid \<and> - 62167219200000 \<le> now \<and> now < 253402300800000
      \<and> InsertSale.invoice_number saleData = [] \<longrightarrow>
      (\<exists>d x. Sale.invoice_number (fst (MemStorage_createSale this now rid saleData))
                = ''INV-'' @ d @ ''-'' @ x
             \<and> length d = 8 \<and> list_all is_digit d \<and> length x = 6 \<and> list_all is_id_char x
             \<and> d = padStart 4 (show_nat (nat (YearFromTime now)))
                   @ padStart 2 (show_nat (nat (MonthFromTime now + 1)))
                   @ padStart 2 (show_nat (nat (DateFromTime now)))
             \<and> x = toUpperCase rid))
   \<and> (InsertSale.invoice_number saleData \<noteq> [] \<longrightarrow>
        Sale.invoice_number (fst (MemStorage_createSale this now rid saleData))
          = InsertSale.invoice_number saleData)
   \<and> (is_nanoid 6 (nanoid 0) \<and> Date_parse saleDate = Some date
        \<and> sale_subtotal productItems \<noteq> NaN \<longrightarrow>
        (\<exists>sale x. Map_get (MemStorage.sales (snd (post_sales Date_parse parseInt storage clock nanoid
                      user saleDate customerName productItems paymentMethod ns)))
                    (saleIdCounter storage) = Some sale
            \<and> Sale.invoice_number sale = ''INV-'' @ remove_hyphens saleDate @ ''-'' @ x
            \<and> length x = 6 \<and> list_all is_id_char x))
   \<and> (sale_subtotal productItems = NaN \<longrightarrow>
        post_sales Date_parse parseInt storage clock nanoid user saleDate customerName
          productItems paymentMethod ns = ((400, ErrorMessage ZodError), storage))
   \<and> (is_date_string saleDate \<longrightarrow>
        length (remove_hyphens saleDate) = 8 \<and> list_all is_digit (remove_hyphens saleDate))"
proof -
  have kept: "InsertSale.invoice_number saleData \<noteq> [] \<longrightarrow>
        Sale.invoice_number (fst (MemStorage_createSale this now rid saleData))
          = InsertSale.invoice_number saleData"
    by (simp add: MemStorage_createSale_def Let_def)
  show ?thesis
    using createSale_generated [of rid now saleData this] kept
      post_sales_invoice [of nanoid Date_parse saleDate date productItems parseInt storage
        clock user customerName paymentMethod ns]
      post_sales_not_a_number [of productItems Date_parse parseInt storage clock nanoid user
        saleDate customerName paymentMethod ns]
      date_string_digits [of saleDate]
    by blast
qed

lemma iso_date_example: "remove_hyphens (Array_slice (toISOString 1704875700123) 0 10) = ''20240110''"
  by code_simp

lemma nanoid_example_ok: "is_nanoid 6 ''a_b-c1''"
  by (simp add: is_nanoid_def urlAlphabet_def)

lemma toUpperCase_example: "toUpperCase ''a_b-c1'' = ''A_B-C1''"
  by code_simp

lemma createSale_example:
  "Sale.invoice_number (fst (MemStorage_createSale (MemStorage_new 0) 1704875700123 ''a_b-c1''
      sale_without_invoice)) = ''INV-20240110-A_B-C1''"
  by (simp add: MemStorage_createSale_def Let_def sale_without_invoice_def iso_date_example
      toUpperCase_example)

lemma post_sales_example:
  "fst (post_sales parse_date_example parseInt_example (MemStorage_new 0) clock_example
         nanoid_example some_user ''2024-01-10'' ''Budi'' two_items ''cash'' None)
     = (201, SaleCreated 1 ''INV-20240110-A_B-C1'' (Fin (555 / 2))
          ''Sale recorded successfully'')"
  unfolding post_sales_def Let_def subtotal_fold two_items_def sale_subtotal_two_items
    tax_rate_def [symmetric] amounts_two_items
  by (simp add: parse_date_example_def parseInt_example_def
      nanoid_example_def toUpperCase_example remove_hyphens_def MemStorage_createSale_def
      MemStorage_createSaleItem_def MemStorage_new_def Let_def truthy_def)

text \<open>
  The claim as it is written fails: the identifier \<open>a_b-c1\<close> is one that \<open>nanoid (6)\<close>
  can return, and the invoice number that \<open>createSale\<close> and the handler make of it
  has an underscore and a hyphen among its last six characters.
\<close>

theorem invoice_pattern_counterexample:
  "is_nanoid 6 ''a_b-c1''
   \<and> Sale.invoice_number (fst (MemStorage_createSale (MemStorage_new 0) 1704875700123 ''a_b-c1''
        sale_without_invoice)) = ''INV-20240110-A_B-C1''
   \<and> fst (post_sales parse_date_example parseInt_example (MemStorage_new 0) clock_example
         nanoid_example some_user ''2024-01-10'' ''Budi'' two_items ''cash'' None)
       = (201, SaleCreated 1 ''INV-20240110-A_B-C1'' (Fin (555 / 2))
            ''Sale recorded successfully'')
   \<and> \<not> invoice_pattern ''INV-20240110-A_B-C1''"
proof -
  have "\<not> invoice_pattern ''INV-20240110-A_B-C1''"
    by (simp add: invoice_pattern_def is_upper_def is_digit_def Let_def)
  then show ?thesis
    using nanoid_example_ok createSale_example post_sales_example by simp
qed

theorem invoice_number_format_witness:
  "is_nanoid 6 ''a_b-c1'' \<and> - 62167219200000 \<le> (1704875700123::int)
   \<and> (1704875700123::int) < 253402300800000
   \<and> InsertSale.invoice_number sale_without_invoice = []
   \<and> is_nanoid 6 (nanoid_example 0)
   \<and> parse_date_example ''2024-01-10'' = Some 1704844800000
   \<and> sale_subtotal two_items \<noteq> NaN
   \<and> is_date_string ''2024-01-10''
   \<and> length (remove_hyphens ''2024-01-10'') = 8
   \<and> (\<exists>d x. Sale.invoice_number (fst (MemStorage_createSale (MemStorage_new 0) 1704875700123
                 ''a_b-c1'' sale_without_invoice)) = ''INV-'' @ d @ ''-'' @ x
             \<and> length d = 8 \<and> list_all is_digit d \<and> length x = 6 \<and> list_all is_id_char x
             \<and> d = padStart 4 (show_nat (nat (YearFromTime 1704875700123)))
                   @ padStart 2 (show_nat (nat (MonthFromTime 1704875700123 + 1)))
                   @ padStart 2 (show_nat (nat (DateFromTime 1704875700123)))
             \<and> x = toUpperCase ''a_b-c1'')
   \<and> (\<exists>sale x. Map_get (MemStorage.sales (snd (post_sales parse_date_example parseInt_example
                   (MemStorage_new 0) clock_example nanoid_example some_user ''2024-01-10''
                   ''Budi'' two_items ''cash'' None))) (saleIdCounter (MemStorage_new 0)) = Some sale
            \<and> Sale.invoice_number sale = ''INV-'' @ remove_hyphens ''2024-01-10'' @ ''-'' @ x
            \<and> length x = 6 \<and> list_all is_id_char x)"
proof -
  have hyps: "is_nanoid 6 ''a_b-c1''" "- 62167219200000 \<le> (1704875700123::int)"
    "(1704875700123::int) < 253402300800000"
    "InsertSale.invoice_number sale_without_invoice = []"
    "is_nanoid 6 (nanoid_example 0)"
    "parse_date_example ''2024-01-10'' = Some 1704844800000"
    "is_date_string ''2024-01-10''"
    "sale_subtotal two_items \<noteq> NaN"
    by (simp_all add: nanoid_example_ok sale_without_invoice_def nanoid_example_def
        parse_date_example_def is_date_string_def is_digit_def Let_def two_items_def
        sale_subtotal_two_items)
  show ?thesis
    using hyps invoice_number_format [of "''a_b-c1''" 1704875700123 sale_without_invoice
        "MemStorage_new 0" nanoid_example parse_date_example "''2024-01-10''" 1704844800000
        two_items parseInt_example "MemStorage_new 0" clock_example some_user "''Budi''"
        "''cash''" None]
    by blast
qed

section \<open>Updates\<close>

lemma MemStorage_updateAttendance_found:
  assumes "Map_get (MemStorage.attendance this) i = Some record"
  shows "MemStorage_updateAttendance this i data =
     (Inr (merge_Attendance record data),
      this\<lparr>MemStorage.attendance :=
        Map_set i (merge_Attendance record data) (MemStorage.attendance this)\<rparr>)"
  using assms by (simp add: MemStorage_updateAttendance_def Let_def)

lemma MemStorage_updateAttendance_missing:
  assumes "Map_get (MemStorage.attendance this) i = None"
  shows "MemStorage_updateAttendance this i data =
     (Inl (Error (''Attendance record with id '' @ show_int i @ '' not found'')), this)"
  using assms by (simp add: MemStorage_updateAttendance_def)

lemma MemStorage_updateWorkReport_found:
  assumes "Map_get (MemStorage.workReports this) i = Some report"
  shows "MemStorage_updateWorkReport this i data =
     (Inr (merge_WorkReport report data),
      this\<lparr>MemStorage.workReports :=
        Map_set i (merge_WorkReport report data) (MemStorage.workReports this)\<rparr>)"
  using assms by (simp add: MemStorage_updateWorkReport_def Let_def)

lemma MemStorage_updateWorkReport_missing:
  assumes "Map_get (MemStorage.workReports this) i = None"
  shows "MemStorage_updateWorkReport this i data =
     (Inl (Error (''Work report with id '' @ show_int i @ '' not found'')), this)"
  using assms by (simp add: MemStorage_updateWorkReport_def)

lemma show_int_99: "show_int 99 = ''99''"
  by code_simp

text \<open>
  C7 at an id that no record has. \<open>MemStorage\<close> throws its not-found error and leaves
  the store as it is; \<open>SupabaseStorage\<close> throws nothing: the update matches no row, and
  the method resolves to \<open>result[0]\<close> of the empty result, which is \<open>undefined\<close>.
\<close>

theorem update_missing_id:
  "Map_get (MemStorage.attendance store_sari) 99 = None
   \<and> MemStorage_updateAttendance store_sari 99 (checkout_at 500) =
       (Inl (Error ''Attendance record with id 99 not found''), store_sari)
   \<and> MemStorage_updateWorkReport store_sari 99 status_completed =
       (Inl (Error ''Work report with id 99 not found''), store_sari)
   \<and> filter (\<lambda>r. Attendance.id r = 99) (Database.attendance db_sari) = []
   \<and> SupabaseStorage_updateAttendance db_sari 99 (checkout_at 500) = (Inr None, db_sari)
   \<and> SupabaseStorage_updateWorkReport db_sari 99 status_completed = (Inr None, db_sari)"
proof -
  have none: "Map_get (MemStorage.attendance store_sari) 99 = None"
    "Map_get (MemStorage.workReports store_sari) 99 = None"
    by (simp_all add: store_sari_def Map_get_def MemStorage_new_def)
  have "filter (\<lambda>r. Attendance.id r = 99) (Database.attendance db_sari) = []"
    by (simp add: db_sari_def attendance_row_def)
  moreover have "SupabaseStorage_updateAttendance db_sari 99 (checkout_at 500) = (Inr None, db_sari)"
    by (simp add: SupabaseStorage_updateAttendance_def no_keys_Attendance_def checkout_at_def
        db_sari_def attendance_row_def first_row_def Let_def)
  moreover have "SupabaseStorage_updateWorkReport db_sari 99 status_completed = (Inr None, db_sari)"
    by (simp add: SupabaseStorage_updateWorkReport_def no_keys_WorkReport_def
        status_completed_def db_sari_def first_row_def Let_def)
  ultimately show ?thesis
    using none MemStorage_updateAttendance_missing [of store_sari 99 "checkout_at 500"]
      MemStorage_updateWorkReport_missing [of store_sari 99 status_completed]
    by (simp add: show_int_99)
qed

section \<open>The two backends\<close>

lemma corresponds_sari: "corresponds store_sari db_sari"
  by (simp add: corresponds_def same_rows_def keyed_def store_sari_def db_sari_def
      MemStorage_new_def Map_values_def sample_products_def sample_product_def
      user_sari_def attendance_row_def)

text \<open>
  C1 does not hold of the code. The two stores hold the same rows, with one user
  \<open>sari\<close>. A second user of that name and another email is accepted by
  \<open>MemStorage.createUser\<close>, which checks nothing and returns the new user with the id
  2. \<open>SupabaseStorage.createUser\<close> returns no user: on a connection that runs its
  query the insert is refused by the \<open>users\<close> table, whose \<open>username\<close> column is
  \<open>unique\<close>, and on the connection that the constructor builds the query rejects with a
  \<open>TypeError\<close>, as it does for a user of a new name.
\<close>

theorem createUser_backends_differ:
  "corresponds store_sari db_sari
   \<and> fst (MemStorage_createUser store_sari 0 second_sari) =
       \<lparr>User.id = 2, username = ''sari'', password = ''lain'', email = ''sari2@example.com'',
        role = ''karyawan'', full_name = None, avatar_url = None, created_at = Some 0\<rparr>
   \<and> fst (SupabaseStorage_createUser_awaited Pool db_sari 0 second_sari) =
       Inl (UniqueViolation ''users_username_unique'')
   \<and> fst (SupabaseStorage_createUser_awaited SupabaseStorage_new db_sari 0 second_sari) =
       Inl TypeError
   \<and> fst (MemStorage_createUser store_sari 0 (second_sari\<lparr>InsertUser.username := ''budi''\<rparr>)) =
       \<lparr>User.id = 2, username = ''budi'', password = ''lain'', email = ''sari2@example.com'',
        role = ''karyawan'', full_name = None, avatar_url = None, created_at = Some 0\<rparr>
   \<and> fst (SupabaseStorage_createUser_awaited SupabaseStorage_new db_sari 0
        (second_sari\<lparr>InsertUser.username := ''budi''\<rparr>)) = Inl TypeError"
proof -
  have "fst (MemStorage_createUser store_sari 0 second_sari) =
       \<lparr>User.id = 2, username = ''sari'', password = ''lain'', email = ''sari2@example.com'',
        role = ''karyawan'', full_name = None, avatar_url = None, created_at = Some 0\<rparr>"
    by (simp add: MemStorage_createUser_def Let_def store_sari_def second_sari_def)
  moreover have "fst (MemStorage_createUser store_sari 0
        (second_sari\<lparr>InsertUser.username := ''budi''\<rparr>)) =
       \<lparr>User.id = 2, username = ''budi'', password = ''lain'', email = ''sari2@example.com'',
        role = ''karyawan'', full_name = None, avatar_url = None, created_at = Some 0\<rparr>"
    by (simp add: MemStorage_createUser_def Let_def store_sari_def second_sari_def)
  moreover have "fst (SupabaseStorage_createUser_awaited Pool db_sari 0 second_sari) =
       Inl (UniqueViolation ''users_username_unique'')"
    by (simp add: SupabaseStorage_createUser_awaited_def await_query_def
        SupabaseStorage_createUser_def Let_def db_sari_def second_sari_def user_sari_def)
  moreover have "fst (SupabaseStorage_createUser_awaited SupabaseStorage_new db_sari 0 user) =
       Inl TypeError" for user
    by (simp add: SupabaseStorage_createUser_awaited_def await_query_def SupabaseStorage_new_def
        drizzle_def supabase_def)
  ultimately show ?thesis
    using corresponds_sari by simp
qed

end
